theory Spec2Isabelle
  imports
    Complex_Main
    "HOL-Library.Char_ord"
    "HOL-Library.List_Lexorder"
    "HOL-Library.Product_Lexorder"
    "HOL-Library.Multiset"
begin

section \<open>Data model\<close>

text \<open>
  The validation functions of \<^verbatim>\<open>validation_functions.py\<close> work on a pandas
  frame read from a CSV file.  The frame is modelled row-wise: the names of the columns
  that are present, and one record per row.  A calendar date is the number of days since
  a fixed day (an \<open>int\<close>), so that \<^verbatim>\<open>pd.Timedelta(weeks = h, days = -4)\<close> adds
  \<open>7 * h - 4\<close>.  A quantile level is a rational number, a missing cell (NaN) is \<open>None\<close>.
  The cell of column \<^verbatim>\<open>value\<close> is kept as the text that \<^verbatim>\<open>astype(str)\<close> gives for it.
  The two helper columns that the checks add to the frame are fields of the row as well;
  they are read only when the frame carries the column.

  The record is the row of a frame whose cells of \<^verbatim>\<open>location\<close>, \<^verbatim>\<open>age_group\<close>,
  \<^verbatim>\<open>type\<close>, \<^verbatim>\<open>horizon\<close> and of the two date columns are present: a frame with a
  missing cell there is not covered.  pandas keeps a time stamp and a time difference as
  a 64-bit count of nanoseconds; a date cell whose day number is outside that range
  stands for a text that \<^verbatim>\<open>read_csv\<close> could not turn into a time stamp.
\<close>

record row =
  location :: string
  age_group :: string
  forecast_date :: int
  target_end_date :: int
  horizon :: int
  type :: string
  quantile :: "rat option"
  val :: "string option"
  invalid_target_date :: "bool option"
  no_quantiles :: "nat option"

record table =
  columns :: "string list"
  rows :: "row list"

datatype exn =
  AttributeError | KeyError | IndexError | ValueError | TypeError | OverflowError | FileError

datatype cellv = S string | I int | Q rat

datatype pydate = NaT | Date int

text \<open>One constructor per message text of the source; the arguments are the data the
  message renders.\<close>

datatype message =
    Naming_Convention
  | Filename_Date_Format string
  | Multiple_Forecast_Dates "string option list"
  | Column_Date_Format "string option"
  | Date_Mismatch string pydate
  | Not_Made_Today int int
  | Invalid_Entries string "cellv list"
  | Columns_Missing "string list"
  | Columns_Not_Accepted "string list"
  | Target_Dates_Wrong "(int \<times> int \<times> int) list"
  | Missing_Values nat
  | Non_Numeric "string list"
  | Mean_With_Quantile nat
  | Duplicated_Targets nat "row list"
  | Quantiles_Missing "((string \<times> string \<times> int \<times> int) \<times> rat option list) list"
  | Fatal_Error string
  | Not_Valid_Submission

text \<open>What a check returns in Python: nothing, one message, or a list of messages.\<close>

datatype result = RNone | RStr message | RList "message list"

definition VALID_COLUMNS :: "string list" where
  "VALID_COLUMNS = [''location'', ''age_group'', ''forecast_date'', ''target_end_date'',
     ''horizon'', ''type'', ''quantile'', ''value'']"

definition LOCATION_CODES :: "string list" where
  "LOCATION_CODES = [''DE'', ''DE-BB-BE'', ''DE-BW'', ''DE-BY'', ''DE-HE'', ''DE-MV'',
     ''DE-NI-HB'', ''DE-NW'', ''DE-RP-SL'', ''DE-SH-HH'', ''DE-SN'', ''DE-ST'', ''DE-TH'']"

definition VALID_QUANTILES :: "rat list" where
  "VALID_QUANTILES = [0.025, 0.1, 0.25, 0.5, 0.75, 0.9, 0.975]"

definition VALID_TYPES :: "string list" where
  "VALID_TYPES = [''mean'', ''quantile'']"

definition VALID_AGE_GROUPS :: "string list" where
  "VALID_AGE_GROUPS = [''00+'', ''00-04'', ''05-14'', ''15-34'', ''35-59'', ''60-79'',
     ''80+'', ''60+'']"

definition VALID_HORIZONS :: "int list" where
  "VALID_HORIZONS = [-3, -2, -1, 0, 1, 2, 3, 4]"

definition has_col :: "table \<Rightarrow> string \<Rightarrow> bool" where
  "has_col df c = (c \<in> set (columns df))"

text \<open>\<^verbatim>\<open>unique()\<close> and \<^verbatim>\<open>drop_duplicates()\<close> keep the first occurrence of every
  value, in the order of appearance.\<close>

fun unique_from :: "'a list \<Rightarrow> 'a list \<Rightarrow> 'a list" where
  "unique_from seen [] = []"
| "unique_from seen (x # xs) =
     (if x \<in> set seen then unique_from seen xs else x # unique_from (x # seen) xs)"

definition unique :: "'a list \<Rightarrow> 'a list" where
  "unique xs = unique_from [] xs"

definition dropna :: "'a option list \<Rightarrow> 'a list" where
  "dropna xs = map the (filter (\<lambda>x. x \<noteq> None) xs)"

text \<open>\<^verbatim>\<open>nunique()\<close> counts the distinct values that are not missing.\<close>

definition nunique :: "'a option list \<Rightarrow> nat" where
  "nunique xs = length (unique (dropna xs))"

section \<open>check\_value\<close>

text \<open>\<^verbatim>\<open>str.replace('.', '', regex = False)\<close> replaces every occurrence.\<close>

fun str_replace :: "char \<Rightarrow> string \<Rightarrow> string \<Rightarrow> string" where
  "str_replace old new [] = []"
| "str_replace old new (c # cs) =
     (if c = old then new @ str_replace old new cs else c # str_replace old new cs)"

definition is_digit :: "char \<Rightarrow> bool" where
  "is_digit c = (c \<in> set ''0123456789'')"

text \<open>\<^verbatim>\<open>str.isnumeric()\<close> on text of the ASCII range: at least one character, all of
  them digits.\<close>

definition isnumeric :: "string \<Rightarrow> bool" where
  "isnumeric s = (s \<noteq> [] \<and> list_all is_digit s)"

text \<open>\<^verbatim>\<open>astype(str)\<close>: a missing cell becomes the text \<^verbatim>\<open>nan\<close>.\<close>

definition astype_str :: "string option \<Rightarrow> string" where
  "astype_str v = (case v of None \<Rightarrow> ''nan'' | Some s \<Rightarrow> s)"

definition isnull_sum :: "'a option list \<Rightarrow> nat" where
  "isnull_sum xs = length (filter (\<lambda>x. x = None) xs)"

definition check_value :: "table \<Rightarrow> exn + result" where
  "check_value df =
     (if \<not> has_col df ''value'' then Inl AttributeError
      else
        let value = map val (rows df);
            errors1 = (if isnull_sum value \<noteq> 0 then [Missing_Values (isnull_sum value)] else []);
            non_numeric_values =
              dropna (filter (\<lambda>v. \<not> isnumeric (str_replace CHR ''.'' '''' (astype_str v))) value);
            errors2 = (if length non_numeric_values > 0 then [Non_Numeric non_numeric_values] else []);
            errors = errors1 @ errors2
        in Inr (if length errors > 0 then RList errors else RNone))"

section \<open>check\_header, check\_column\_values, check\_mean\<close>

definition check_header :: "table \<Rightarrow> exn + result" where
  "check_header df =
     (let missing_cols = filter (\<lambda>c. c \<notin> set (columns df)) VALID_COLUMNS;
          additional_cols = filter (\<lambda>c. c \<notin> set VALID_COLUMNS) (columns df);
          errors1 = (if length missing_cols > 0 then [Columns_Missing missing_cols] else []);
          errors2 = (if length additional_cols > 0 then [Columns_Not_Accepted additional_cols] else []);
          errors = errors1 @ errors2
      in Inr (if length errors > 0 then RList errors else RNone))"

text \<open>The dictionary \<^verbatim>\<open>invalid_values\<close> is filled in the order location, quantile,
  type, age\_group, horizon, and read in that order; the first column that is not there
  raises.\<close>

definition check_column_values :: "table \<Rightarrow> exn + result" where
  "check_column_values df =
     (if \<not> has_col df ''location'' then Inl AttributeError
      else if \<not> has_col df ''quantile'' then Inl KeyError
      else if \<not> has_col df ''type'' \<or> \<not> has_col df ''age_group'' \<or> \<not> has_col df ''horizon''
        then Inl AttributeError
      else
        let invalid_values =
              [(''location'', map S (filter (\<lambda>x. x \<notin> set LOCATION_CODES)
                                  (unique (map location (rows df))))),
               (''quantile'', map Q (filter (\<lambda>x. x \<notin> set VALID_QUANTILES)
                                  (unique (dropna (map quantile (rows df)))))),
               (''type'', map S (filter (\<lambda>x. x \<notin> set VALID_TYPES)
                                  (unique (map type (rows df))))),
               (''age_group'', map S (filter (\<lambda>x. x \<notin> set VALID_AGE_GROUPS)
                                  (unique (map age_group (rows df))))),
               (''horizon'', map I (filter (\<lambda>x. x \<notin> set VALID_HORIZONS)
                                  (unique (map horizon (rows df)))))];
            errors = map (\<lambda>(key, v). Invalid_Entries key v)
                       (filter (\<lambda>(key, v). length v > 0) invalid_values)
        in Inr (if length errors > 0 then RList errors else RNone))"

definition check_mean :: "table \<Rightarrow> exn + result" where
  "check_mean df =
     (if \<not> has_col df ''type'' then Inl AttributeError
      else if \<not> has_col df ''quantile'' then Inl KeyError
      else
        let n = length (filter (\<lambda>q. q \<noteq> None)
                  (map quantile (filter (\<lambda>r. type r = ''mean'') (rows df))))
        in Inr (if n > 0 then RStr (Mean_With_Quantile n) else RNone))"

section \<open>check\_duplicates\<close>

definition dkey :: "row \<Rightarrow> string \<times> string \<times> int \<times> int \<times> int \<times> string \<times> rat option" where
  "dkey r = (location r, age_group r, forecast_date r, target_end_date r, horizon r,
             type r, quantile r)"

text \<open>\<^verbatim>\<open>sort_values\<close> puts a missing quantile after every present one.\<close>

definition skey :: "row \<Rightarrow> string \<times> string \<times> int \<times> int \<times> int \<times> string \<times> bool \<times> rat" where
  "skey r = (location r, age_group r, forecast_date r, target_end_date r, horizon r, type r,
             (case quantile r of None \<Rightarrow> (True, 0) | Some q \<Rightarrow> (False, q)))"

text \<open>\<^verbatim>\<open>duplicated(subset = ..., keep = False)\<close> marks every row whose key occurs more
  than once; two missing quantiles count as equal.\<close>

definition duplicated :: "row list \<Rightarrow> row \<Rightarrow> bool" where
  "duplicated rs r = (length (filter (\<lambda>s. dkey s = dkey r) rs) > 1)"

definition dkey_columns :: "string list" where
  "dkey_columns = [''location'', ''age_group'', ''forecast_date'', ''target_end_date'',
     ''horizon'', ''type'', ''quantile'']"

definition check_duplicates :: "table \<Rightarrow> exn + result" where
  "check_duplicates df =
     (if \<not> list_all (has_col df) dkey_columns then Inl KeyError
      else
        let df_duplicated = sort_key skey (filter (duplicated (rows df)) (rows df));
            n = length df_duplicated
        in Inr (if n > 0 then RStr (Duplicated_Targets n df_duplicated) else RNone))"

text \<open>The rows that the message of the duplicate check lists.\<close>

definition reported_rows :: "exn + result \<Rightarrow> row list" where
  "reported_rows res = (case res of Inr (RStr (Duplicated_Targets n rs)) \<Rightarrow> rs | _ \<Rightarrow> [])"

section \<open>check\_target\_dates\<close>

definition add_column :: "string \<Rightarrow> string list \<Rightarrow> string list" where
  "add_column c cs = (if c \<in> set cs then cs else cs @ [c])"

definition expected_target_date :: "row \<Rightarrow> int" where
  "expected_target_date x = forecast_date x + (7 * horizon x + (- 4))"

text \<open>
  The range of a time stamp and of \<^verbatim>\<open>pd.Timedelta\<close>, for whole days: the count of
  nanoseconds fits into 64 bits.
\<close>

definition ns_per_day :: int where
  "ns_per_day = 86400000000000"

definition int64_max :: int where
  "int64_max = 9223372036854775807"

definition in_bounds :: "int \<Rightarrow> bool" where
  "in_bounds days = (\<bar>days * ns_per_day\<bar> \<le> int64_max)"

text \<open>
  The lambda of the check on one row:
  \<^verbatim>\<open>x.target_end_date != x.forecast_date + pd.Timedelta(weeks = x.horizon, days = -4)\<close>.
  \<^verbatim>\<open>pd.Timedelta\<close> raises when the difference is out of range; the sum raises when the
  forecast date is a text and not a time stamp, and when the result is out of range.
\<close>

definition target_date_differs :: "row \<Rightarrow> exn + bool" where
  "target_date_differs x =
     (if \<not> in_bounds (7 * horizon x + (- 4)) then Inl OverflowError
      else if \<not> in_bounds (forecast_date x) then Inl TypeError
      else if \<not> in_bounds (expected_target_date x) then Inl OverflowError
      else Inr (target_end_date x \<noteq> expected_target_date x))"

text \<open>\<^verbatim>\<open>df.apply(..., axis = 1)\<close> on a frame with rows: the values of the lambda in the
  order of the rows, or the exception of the first row on which the lambda raises.\<close>

fun apply_rows :: "(row \<Rightarrow> exn + 'a) \<Rightarrow> row list \<Rightarrow> exn + 'a list" where
  "apply_rows f [] = Inr []"
| "apply_rows f (x # xs) =
     (case f x of
        Inl e \<Rightarrow> Inl e
      | Inr v \<Rightarrow> (case apply_rows f xs of Inl e \<Rightarrow> Inl e | Inr vs \<Rightarrow> Inr (v # vs)))"

text \<open>
  The check writes the row-wise comparison into the column \<^verbatim>\<open>invalid_target_date\<close>
  of the frame it is given.  On a frame without rows \<^verbatim>\<open>DataFrame.apply\<close> gives back
  a frame, not a column, and the assignment of that frame to one column raises; a frame
  with rows raises when the lambda reads a column that is not there, and when the lambda
  raises on a row.  In all these cases the frame is left as it was.
\<close>

definition check_target_dates :: "table \<Rightarrow> (exn + result) \<times> table" where
  "check_target_dates df =
     (if rows df = [] then (Inl ValueError, df)
      else if \<not> list_all (has_col df) [''target_end_date'', ''forecast_date'', ''horizon'']
        then (Inl AttributeError, df)
      else
        (case apply_rows target_date_differs (rows df) of
           Inl e \<Rightarrow> (Inl e, df)
         | Inr flags \<Rightarrow>
             let df' = \<lparr> columns = add_column ''invalid_target_date'' (columns df),
                          rows = map (\<lambda>(x, v). x\<lparr>invalid_target_date := Some v\<rparr>)
                                   (zip (rows df) flags) \<rparr>;
                 invalid_target_dates =
                   unique (map (\<lambda>x. (forecast_date x, target_end_date x, horizon x))
                             (filter (\<lambda>x. invalid_target_date x = Some True) (rows df')))
             in (Inr (if length invalid_target_dates > 0
                      then RStr (Target_Dates_Wrong invalid_target_dates) else RNone), df')))"

section \<open>check\_quantiles\<close>

definition gkey :: "row \<Rightarrow> string \<times> string \<times> int \<times> int" where
  "gkey r = (location r, age_group r, horizon r, target_end_date r)"

text \<open>The number of distinct quantile levels in the group of row \<open>r\<close> among the rows
  whose type is not \<^verbatim>\<open>mean\<close>: \<^verbatim>\<open>groupby(...)['quantile'].transform('nunique')\<close>.\<close>

definition group_nunique :: "row list \<Rightarrow> row \<Rightarrow> nat" where
  "group_nunique rs r =
     nunique (map quantile (filter (\<lambda>s. gkey s = gkey r) (filter (\<lambda>s. type s \<noteq> ''mean'') rs)))"

text \<open>
  The assignment through \<^verbatim>\<open>df.loc[df.type != 'mean', 'no_quantiles']\<close> writes the rows
  whose type is not \<^verbatim>\<open>mean\<close> only: the other rows get a missing value when the column
  is new, and keep what they had when the frame came with a column of that name.
\<close>

definition set_no_quantiles :: "table \<Rightarrow> table" where
  "set_no_quantiles df =
     \<lparr> columns = add_column ''no_quantiles'' (columns df),
       rows = map (\<lambda>r. r\<lparr>no_quantiles :=
                     (if type r \<noteq> ''mean'' then Some (group_nunique (rows df) r)
                      else if has_col df ''no_quantiles'' then no_quantiles r else None)\<rparr>)
                (rows df) \<rparr>"

text \<open>The message lists, for every group key of the incomplete rows (in ascending order
  of the key), the quantile cells of the group.\<close>

definition quantiles_by_group ::
  "row list \<Rightarrow> ((string \<times> string \<times> int \<times> int) \<times> rat option list) list" where
  "quantiles_by_group rs =
     map (\<lambda>k. (k, unique (map quantile (filter (\<lambda>r. gkey r = k) rs))))
       (sort (unique (map gkey rs)))"

definition check_quantiles :: "table \<Rightarrow> (exn + result) \<times> table" where
  "check_quantiles df =
     (if \<not> has_col df ''type'' then (Inl AttributeError, df)
      else if \<not> list_all (has_col df)
                 [''location'', ''age_group'', ''horizon'', ''target_end_date'', ''quantile'']
        then (Inl KeyError, df)
      else
        let df' = set_no_quantiles df;
            incomplete_quantiles =
              filter (\<lambda>r. no_quantiles r \<noteq> Some 7 \<and> no_quantiles r \<noteq> None) (rows df');
            only_mean = list_all (\<lambda>r. type r = ''mean'') (rows df');
            only_median = list_all (\<lambda>r. quantile r = Some 0.5)
                            (filter (\<lambda>r. type r = ''quantile'') (rows df'))
        in (Inr (if length incomplete_quantiles > 0 \<and> \<not> (only_mean \<or> only_median)
                 then RStr (Quantiles_Missing (quantiles_by_group incomplete_quantiles))
                 else RNone), df'))"

section \<open>Regular expressions and check\_filepath\<close>

text \<open>
  The two patterns of the repository use literal text, \<^verbatim>\<open>.\<close>, \<^verbatim>\<open>.*\<close>, \<^verbatim>\<open>\d\<close>,
  the capturing group \<^verbatim>\<open>(.+)\<close> and back-references.  \<^verbatim>\<open>re.match\<close> anchors the
  pattern at the start of the text and not at its end, and \<^verbatim>\<open>.\<close> matches every
  character but the line feed.  \<open>rmatch ps gs s\<close> holds when the items \<open>ps\<close> match a
  prefix of \<open>s\<close>, given the texts \<open>gs\<close> captured so far.
\<close>

datatype rx = Lit string | Dot | DotStar | Digit | Group | Backref nat

definition dot_char :: "char \<Rightarrow> bool" where
  "dot_char c = (c \<noteq> CHR 0x0A)"

fun rmatch :: "rx list \<Rightarrow> string list \<Rightarrow> string \<Rightarrow> bool" where
  "rmatch [] gs s = True"
| "rmatch (Lit l # ps) gs s = (take (length l) s = l \<and> rmatch ps gs (drop (length l) s))"
| "rmatch (Dot # ps) gs s = (case s of [] \<Rightarrow> False | c # cs \<Rightarrow> dot_char c \<and> rmatch ps gs cs)"
| "rmatch (Digit # ps) gs s = (case s of [] \<Rightarrow> False | c # cs \<Rightarrow> is_digit c \<and> rmatch ps gs cs)"
| "rmatch (DotStar # ps) gs s =
     list_ex (\<lambda>k. rmatch ps gs (drop k s)) [0 ..< Suc (length (takeWhile dot_char s))]"
| "rmatch (Group # ps) gs s =
     list_ex (\<lambda>k. rmatch ps (gs @ [take k s]) (drop k s)) [1 ..< Suc (length (takeWhile dot_char s))]"
| "rmatch (Backref n # ps) gs s =
     (0 < n \<and> n \<le> length gs \<and> take (length (gs ! (n - 1))) s = gs ! (n - 1)
      \<and> rmatch ps gs (drop (length (gs ! (n - 1))) s))"

definition re_match :: "rx list \<Rightarrow> string \<Rightarrow> bool" where
  "re_match ps s = rmatch ps [] s"

definition date_rx :: "rx list" where
  "date_rx = [Digit, Digit, Digit, Digit, Lit ''-'', Digit, Digit, Lit ''-'', Digit, Digit, Lit ''-'']"

definition SUBMISSION_PATTERN :: "rx list" where
  "SUBMISSION_PATTERN =
     [Lit ''forecasts/submissions'', DotStar, Lit ''/'', Group, Lit ''/'', Group, Lit ''/'', Group,
      Lit ''/''] @ date_rx @
     [Backref 1, Lit ''-'', Backref 2, Lit ''-'', Backref 3, Dot, Lit ''csv'']"

definition check_filepath :: "string \<Rightarrow> result" where
  "check_filepath filepath =
     (if \<not> re_match SUBMISSION_PATTERN filepath then RStr Naming_Convention else RNone)"

section \<open>check\_forecast\_date\<close>

text \<open>
  What the check takes from its surroundings: \<open>to_datetime_date x\<close> is the outcome of
  \<^verbatim>\<open>pd.to_datetime(x).date()\<close> on a cell (\<open>None\<close> when it raises), \<open>today\<close> the current
  date in the zone Europe/Berlin, \<open>read_csv\<close> the frame read from a path without date
  parsing (column name and cells as read), \<open>read_csv_dates\<close> the frame read with
  \<^verbatim>\<open>parse_dates\<close>.
\<close>

record env =
  to_datetime_date :: "string option \<Rightarrow> pydate option"
  today :: int
  read_csv :: "string \<Rightarrow> exn + (string \<times> string option list) list"
  read_csv_dates :: "string \<Rightarrow> exn + table"

definition basename :: "string \<Rightarrow> string" where
  "basename p = rev (takeWhile (\<lambda>c. c \<noteq> CHR ''/'') (rev p))"

fun contains :: "string \<Rightarrow> string \<Rightarrow> bool" where
  "contains sub [] = (sub = [])"
| "contains sub (c # cs) = (take (length sub) (c # cs) = sub \<or> contains sub cs)"

text \<open>\<^verbatim>\<open>!=\<close> on dates: \<^verbatim>\<open>NaT\<close> differs from everything.\<close>

fun date_ne :: "pydate \<Rightarrow> pydate \<Rightarrow> bool" where
  "date_ne (Date a) (Date b) = (a \<noteq> b)"
| "date_ne _ _ = True"

text \<open>\<^verbatim>\<open>abs(d - today).days > 1\<close>; the comparison is false on \<^verbatim>\<open>NaT\<close>.\<close>

fun days_apart_gt1 :: "pydate \<Rightarrow> int \<Rightarrow> bool" where
  "days_apart_gt1 (Date a) t = (\<bar>a - t\<bar> > 1)"
| "days_apart_gt1 NaT t = False"

definition check_forecast_date :: "env \<Rightarrow> string \<Rightarrow> exn + result" where
  "check_forecast_date e filepath =
     (case to_datetime_date e (Some (take 10 (basename filepath))) of
        None \<Rightarrow> Inr (RStr (Filename_Date_Format (take 10 (basename filepath))))
      | Some file_forecast_date \<Rightarrow>
          (case read_csv e filepath of
             Inl x \<Rightarrow> Inl x
           | Inr df \<Rightarrow>
               (case map_of df ''forecast_date'' of
                  None \<Rightarrow> Inl AttributeError
                | Some col \<Rightarrow>
                    if nunique col > 1 then Inr (RStr (Multiple_Forecast_Dates (unique col)))
                    else
                      (case col of
                         [] \<Rightarrow> Inl IndexError
                       | c # _ \<Rightarrow>
                           (case to_datetime_date e c of
                              None \<Rightarrow> Inr (RStr (Column_Date_Format c))
                            | Some column_forecast_date \<Rightarrow>
                                if date_ne file_forecast_date column_forecast_date
                                then Inr (RStr (Date_Mismatch (basename filepath) column_forecast_date))
                                else if \<not> contains ''retrospective'' filepath
                                        \<and> days_apart_gt1 file_forecast_date (today e)
                                then Inr (RStr (Not_Made_Today
                                       (case file_forecast_date of Date d \<Rightarrow> d | NaT \<Rightarrow> 0) (today e)))
                                else Inr RNone)))))"

section \<open>check\_forecast\<close>

text \<open>\<^verbatim>\<open>if result: errors.extend(result if isinstance(result, list) else [result])\<close>\<close>

fun result_list :: "result \<Rightarrow> message list" where
  "result_list RNone = []"
| "result_list (RStr m) = [m]"
| "result_list (RList ms) = ms"

type_synonym check = "table \<Rightarrow> (exn + result) \<times> table"

text \<open>A check that does not write to the frame.\<close>

definition pure :: "(table \<Rightarrow> exn + result) \<Rightarrow> check" where
  "pure f df = (f df, df)"

text \<open>The loop over the checks: every check gets the frame as the checks before it
  left it, and an exception of a check becomes one message with the name of the check.\<close>

fun run_checks :: "(string \<times> check) list \<Rightarrow> table \<Rightarrow> message list \<Rightarrow> message list" where
  "run_checks [] df errors = errors"
| "run_checks ((name, check) # cs) df errors =
     (case check df of
        (Inr result, df') \<Rightarrow> run_checks cs df' (errors @ result_list result)
      | (Inl x, df') \<Rightarrow> run_checks cs df' (errors @ [Fatal_Error name]))"

definition checks :: "(string \<times> check) list" where
  "checks =
     [(''check_header'', pure check_header),
      (''check_column_values'', pure check_column_values),
      (''check_value'', pure check_value),
      (''check_mean'', pure check_mean),
      (''check_duplicates'', pure check_duplicates),
      (''check_target_dates'', check_target_dates),
      (''check_quantiles'', check_quantiles)]"

definition check_forecast :: "env \<Rightarrow> string \<Rightarrow> exn + message list" where
  "check_forecast e filepath =
     (let errors = result_list (check_filepath filepath) in
      case check_forecast_date e filepath of
        Inl x \<Rightarrow> Inl x
      | Inr result \<Rightarrow>
          (let errors = errors @ result_list result in
           case read_csv_dates e filepath of
             Inl x \<Rightarrow> Inl x
           | Inr df \<Rightarrow> Inr (run_checks checks df errors)))"

section \<open>main.py: forecasts and other files\<close>

record changed_file =
  filename :: string
  status :: string

definition pat :: "rx list" where
  "pat = [Lit ''submissions/'', DotStar, Lit ''/'', Group, Lit ''/''] @ date_rx @
         [DotStar, Backref 1, Dot, Lit ''csv'']"

definition forecasts :: "changed_file list \<Rightarrow> changed_file list" where
  "forecasts files_changed = filter (\<lambda>f. re_match pat (filename f)) files_changed"

definition other_files :: "changed_file list \<Rightarrow> changed_file list" where
  "other_files files_changed = filter (\<lambda>f. f \<notin> set (forecasts files_changed)) files_changed"

text \<open>The last loop over \<^verbatim>\<open>other_files\<close>, on the dictionary \<open>all_errors\<close> that the
  validation of the downloaded forecasts has filled.\<close>

fun mark_other_files :: "changed_file list \<Rightarrow> (string \<rightharpoonup> message list) \<Rightarrow> (string \<rightharpoonup> message list)" where
  "mark_other_files [] all_errors = all_errors"
| "mark_other_files (f # fs) all_errors =
     mark_other_files fs (all_errors(filename f \<mapsto> [Not_Valid_Submission]))"

definition final_errors :: "changed_file list \<Rightarrow> (string \<rightharpoonup> message list) \<Rightarrow> (string \<rightharpoonup> message list)" where
  "final_errors files_changed all_errors = mark_other_files (other_files files_changed) all_errors"

section \<open>Auxiliary notions of the statements\<close>

text \<open>What one wrapped check adds to the list of errors: its messages, or the one
  message that names it when it raised.\<close>

definition check_errors :: "string \<Rightarrow> exn + result \<Rightarrow> message list" where
  "check_errors name res =
     (case res of
        Inl x \<Rightarrow> [Fatal_Error name]
      | Inr RNone \<Rightarrow> []
      | Inr (RStr m) \<Rightarrow> [m]
      | Inr (RList ms) \<Rightarrow> ms)"

text \<open>The rows on which the lambda of the target date check does not raise.\<close>

definition row_in_bounds :: "row \<Rightarrow> bool" where
  "row_in_bounds x \<longleftrightarrow>
     in_bounds (7 * horizon x - 4) \<and> in_bounds (forecast_date x)
     \<and> in_bounds (forecast_date x + 7 * horizon x - 4)"

text \<open>The rows of the group of \<open>r\<close> that take part in the quantile check.\<close>

definition group_rows :: "row list \<Rightarrow> row \<Rightarrow> row list" where
  "group_rows rs r = filter (\<lambda>s. type s \<noteq> ''mean'' \<and> gkey s = gkey r) rs"

text \<open>The distinct quantile levels present in the group of \<open>r\<close>.\<close>

definition group_levels :: "row list \<Rightarrow> row \<Rightarrow> rat set" where
  "group_levels rs r = set (dropna (map quantile (group_rows rs r)))"

text \<open>The rows of the incomplete groups.\<close>

definition incomplete_rows :: "row list \<Rightarrow> row list" where
  "incomplete_rows rs = filter (\<lambda>r. type r \<noteq> ''mean'' \<and> card (group_levels rs r) \<noteq> 7) rs"

section \<open>Example inputs\<close>

definition mk_row ::
  "string \<Rightarrow> string \<Rightarrow> int \<Rightarrow> int \<Rightarrow> int \<Rightarrow> string \<Rightarrow> rat option \<Rightarrow> string option \<Rightarrow> row" where
  "mk_row l a f t h ty q v =
     \<lparr> location = l, age_group = a, forecast_date = f, target_end_date = t, horizon = h,
       type = ty, quantile = q, val = v, invalid_target_date = None, no_quantiles = None \<rparr>"

definition value_table :: "string option list \<Rightarrow> table" where
  "value_table vs =
     \<lparr> columns = VALID_COLUMNS,
       rows = map (mk_row ''DE'' ''00+'' 19670 19673 1 ''mean'' None) vs \<rparr>"

text \<open>Day 19670 is 2023-11-09; with horizon 1 the target date is day 19673.\<close>

definition row_ok :: row where
  "row_ok = mk_row ''DE'' ''00+'' 19670 19673 1 ''mean'' None (Some ''10'')"

definition row_late :: row where
  "row_late = mk_row ''DE'' ''00+'' 19670 19674 1 ''mean'' None (Some ''11'')"

definition table_dates :: table where
  "table_dates = \<lparr> columns = VALID_COLUMNS, rows = [row_ok, row_late] \<rparr>"

definition q_row :: "rat \<Rightarrow> row" where
  "q_row q = mk_row ''DE'' ''00+'' 19670 19673 1 ''quantile'' (Some q) (Some ''10'')"

text \<open>One group with the seven levels, the row of the median twice.\<close>

definition table_seven :: table where
  "table_seven = \<lparr> columns = VALID_COLUMNS, rows = map q_row VALID_QUANTILES @ [q_row 0.5] \<rparr>"

text \<open>The same rows in another order.\<close>

definition table_seven_permuted :: table where
  "table_seven_permuted =
     \<lparr> columns = VALID_COLUMNS, rows = q_row 0.5 # rev (map q_row VALID_QUANTILES) \<rparr>"

text \<open>A frame read from a file that has a ninth column named \<^verbatim>\<open>no_quantiles\<close>, with
  the cell 3 in the row of type \<^verbatim>\<open>mean\<close>; the seven quantile rows are complete.\<close>

definition table_stale :: table where
  "table_stale =
     \<lparr> columns = VALID_COLUMNS @ [''no_quantiles''],
       rows = row_ok\<lparr>no_quantiles := Some 3\<rparr> # map q_row VALID_QUANTILES \<rparr>"

definition table_empty :: table where
  "table_empty = \<lparr> columns = VALID_COLUMNS, rows = [] \<rparr>"

text \<open>An environment in which the text \<^verbatim>\<open>2023-11-09\<close> is read as day 19670 and no
  other text is read as a date, the current day is 19670, and every path holds the
  given file.\<close>

definition ex_to_datetime_date :: "string option \<Rightarrow> pydate option" where
  "ex_to_datetime_date c =
     (case c of None \<Rightarrow> Some NaT
      | Some s \<Rightarrow> if s = ''2023-11-09'' then Some (Date 19670) else None)"

definition ex_env :: "(string \<times> string option list) list \<Rightarrow> table \<Rightarrow> env" where
  "ex_env raw df =
     \<lparr> to_datetime_date = ex_to_datetime_date, today = 19670,
       read_csv = (\<lambda>p. Inr raw), read_csv_dates = (\<lambda>p. Inr df) \<rparr>"

definition path_ok :: string where
  "path_ok = ''forecasts/submissions/a/b/c/2023-11-09-a-b-c.csv''"

definition path_undated :: string where
  "path_undated = ''forecasts/submissions/a/b/c/forecast.csv''"

text \<open>A frame without the column \<^verbatim>\<open>horizon\<close> and with a column \<^verbatim>\<open>extra\<close>, one
  cell of \<^verbatim>\<open>value\<close> missing and one not a number; and the unparsed frame of a file
  whose two rows carry the forecast date 2023-11-09.\<close>

definition table_two_messages :: table where
  "table_two_messages =
     \<lparr> columns = filter (\<lambda>c. c \<noteq> ''horizon'') VALID_COLUMNS @ [''extra''],
       rows = [row_ok\<lparr>val := None\<rparr>, row_late\<lparr>val := Some ''abc''\<rparr>] \<rparr>"

text \<open>A frame whose one row has a horizon of 1000000000000 weeks.\<close>

definition table_huge_horizon :: table where
  "table_huge_horizon =
     \<lparr> columns = VALID_COLUMNS,
       rows = [mk_row ''DE'' ''00+'' 19670 19673 1000000000000 ''mean'' None (Some ''10'')] \<rparr>"

text \<open>The row of the median twice (the second time with another value), and seven rows
  that differ from it in exactly one of the seven key columns.\<close>

definition near_rows :: "row list" where
  "near_rows =
     [q_row 0.5,
      (q_row 0.5)\<lparr>location := ''DE-BW''\<rparr>,
      (q_row 0.5)\<lparr>age_group := ''80+''\<rparr>,
      (q_row 0.5)\<lparr>forecast_date := 19677\<rparr>,
      (q_row 0.5)\<lparr>target_end_date := 19680\<rparr>,
      (q_row 0.5)\<lparr>horizon := 2\<rparr>,
      (q_row 0.5)\<lparr>type := ''mean''\<rparr>,
      (q_row 0.5)\<lparr>quantile := Some 0.9\<rparr>,
      (q_row 0.5)\<lparr>val := Some ''99''\<rparr>]"

definition table_near :: table where
  "table_near = \<lparr> columns = VALID_COLUMNS, rows = near_rows \<rparr>"

definition table_near_permuted :: table where
  "table_near_permuted = \<lparr> columns = VALID_COLUMNS, rows = rev near_rows \<rparr>"

definition raw_ok :: "(string \<times> string option list) list" where
  "raw_ok = [(''forecast_date'', [Some ''2023-11-09'', Some ''2023-11-09''])]"

text \<open>The unparsed frames of a file with the header only and of a file without the column
  \<^verbatim>\<open>forecast_date\<close>, and a path below a directory \<^verbatim>\<open>retrospective\<close>.\<close>

definition raw_no_rows :: "(string \<times> string option list) list" where
  "raw_no_rows = [(''forecast_date'', [])]"

definition raw_no_forecast_date :: "(string \<times> string option list) list" where
  "raw_no_forecast_date = [(''location'', [Some ''DE''])]"

definition path_retrospective :: string where
  "path_retrospective = ''forecasts/submissions/retrospective/a/b/c/2023-11-09-a-b-c.csv''"

text \<open>Two changed files of a pull request.\<close>

definition file_loose :: changed_file where
  "file_loose = \<lparr> filename = ''submissions/x/c/2023-11-09-c.csv'', status = ''added'' \<rparr>"

definition file_readme :: changed_file where
  "file_readme = \<lparr> filename = ''README.md'', status = ''modified'' \<rparr>"

section \<open>Theorems\<close>

subsection \<open>Target dates and duplicates\<close>

lemma set_unique_from: "set (unique_from seen xs) = set xs - set seen"
  by (induction xs arbitrary: seen) auto

lemma distinct_unique_from: "distinct (unique_from seen xs)"
  by (induction xs arbitrary: seen) (auto simp: set_unique_from)

lemma set_unique: "set (unique xs) = set xs"
  by (simp add: unique_def set_unique_from)

lemma distinct_unique: "distinct (unique xs)"
  by (simp add: unique_def distinct_unique_from)

lemma unique_Nil_iff: "unique xs = [] \<longleftrightarrow> xs = []"
  by (metis set_unique set_empty)

lemma expected_target_date_eq: "expected_target_date x = forecast_date x + 7 * horizon x - 4"
  by (simp add: expected_target_date_def)

lemma target_date_differs_Inr:
  "row_in_bounds x \<Longrightarrow>
     target_date_differs x = Inr (target_end_date x \<noteq> forecast_date x + 7 * horizon x - 4)"
  by (simp add: target_date_differs_def row_in_bounds_def expected_target_date_eq)

lemma target_date_differs_Inl:
  "\<not> row_in_bounds x \<Longrightarrow> \<exists>e. target_date_differs x = Inl e"
  by (auto simp: target_date_differs_def row_in_bounds_def expected_target_date_eq)

lemma apply_rows_in_bounds:
  "\<forall>x \<in> set xs. row_in_bounds x \<Longrightarrow>
     apply_rows target_date_differs xs
       = Inr (map (\<lambda>x. target_end_date x \<noteq> forecast_date x + 7 * horizon x - 4) xs)"
  by (induction xs) (simp_all add: target_date_differs_Inr)

lemma apply_rows_out_of_bounds:
  "\<exists>x \<in> set xs. \<not> row_in_bounds x \<Longrightarrow> \<exists>e. apply_rows target_date_differs xs = Inl e"
proof (induction xs)
  case Nil
  then show ?case by simp
next
  case (Cons x xs)
  show ?case
  proof (cases "row_in_bounds x")
    case True
    with Cons.prems have "\<exists>y \<in> set xs. \<not> row_in_bounds y" by auto
    from Cons.IH[OF this] obtain e where "apply_rows target_date_differs xs = Inl e" by blast
    with True show ?thesis by (simp add: target_date_differs_Inr)
  next
    case False
    from target_date_differs_Inl[OF this] obtain e where "target_date_differs x = Inl e" by blast
    then show ?thesis by simp
  qed
qed

lemma apply_rows_Inr_iff:
  "apply_rows target_date_differs xs = Inr vs \<longleftrightarrow>
     (\<forall>x \<in> set xs. row_in_bounds x)
     \<and> vs = map (\<lambda>x. target_end_date x \<noteq> forecast_date x + 7 * horizon x - 4) xs"
proof (cases "\<forall>x \<in> set xs. row_in_bounds x")
  case True
  then show ?thesis by (auto simp: apply_rows_in_bounds)
next
  case False
  then have "\<exists>x \<in> set xs. \<not> row_in_bounds x" by blast
  from apply_rows_out_of_bounds[OF this] False show ?thesis by auto
qed

lemma map_zip_map: "map (\<lambda>(x, v). g x v) (zip xs (map h xs)) = map (\<lambda>x. g x (h x)) xs"
  by (induction xs) simp_all

text \<open>The check raises exactly on a frame without rows, on a frame that lacks one of the
  three columns, and on a frame with a row on which the lambda raises; then it leaves the
  frame as it is.\<close>

lemma check_target_dates_raises_iff:
  "(\<exists>x. fst (check_target_dates df) = Inl x) \<longleftrightarrow>
     rows df = [] \<or> \<not> has_col df ''target_end_date'' \<or> \<not> has_col df ''forecast_date''
       \<or> \<not> has_col df ''horizon'' \<or> (\<exists>x \<in> set (rows df). \<not> row_in_bounds x)"
proof (cases "\<forall>x \<in> set (rows df). row_in_bounds x")
  case True
  then show ?thesis
    by (auto simp: check_target_dates_def Let_def apply_rows_in_bounds)
next
  case False
  then have "\<exists>x \<in> set (rows df). \<not> row_in_bounds x" by blast
  from apply_rows_out_of_bounds[OF this] False show ?thesis
    by (auto simp: check_target_dates_def Let_def)
qed

lemma check_target_dates_raises_frame:
  "fst (check_target_dates df) = Inl x \<Longrightarrow> snd (check_target_dates df) = df"
  by (auto simp: check_target_dates_def Let_def split: if_splits sum.splits)

lemma check_target_dates_returns_frame:
  assumes "fst (check_target_dates df) = Inr r"
  shows "snd (check_target_dates df) =
      \<lparr>columns = add_column ''invalid_target_date'' (columns df),
       rows = map (\<lambda>x. x\<lparr>invalid_target_date :=
                 Some (target_end_date x \<noteq> forecast_date x + 7 * horizon x - 4)\<rparr>) (rows df)\<rparr>"
proof -
  from assms obtain flags where f: "apply_rows target_date_differs (rows df) = Inr flags"
    by (auto simp: check_target_dates_def Let_def split: if_splits sum.splits)
  then have flags: "flags = map (\<lambda>x. target_end_date x \<noteq> forecast_date x + 7 * horizon x - 4) (rows df)"
    by (simp add: apply_rows_Inr_iff)
  with f have f': "apply_rows target_date_differs (rows df)
      = Inr (map (\<lambda>x. target_end_date x \<noteq> forecast_date x + 7 * horizon x - 4) (rows df))"
    by simp
  from assms show ?thesis
    by (simp add: check_target_dates_def Let_def f' map_zip_map split: if_splits)
qed

lemma check_target_dates_result:
  assumes "rows df \<noteq> []" "has_col df ''forecast_date''" "has_col df ''target_end_date''"
    "has_col df ''horizon''" "\<forall>x \<in> set (rows df). row_in_bounds x"
  shows "fst (check_target_dates df) =
    Inr (let ts = unique (map (\<lambda>x. (forecast_date x, target_end_date x, horizon x))
                   (filter (\<lambda>x. target_end_date x \<noteq> forecast_date x + 7 * horizon x - 4) (rows df)))
         in if ts = [] then RNone else RStr (Target_Dates_Wrong ts))"
proof -
  have "map (\<lambda>x. (forecast_date x, target_end_date x, horizon x))
          (filter (\<lambda>x. invalid_target_date x = Some True)
             (map (\<lambda>x. x\<lparr>invalid_target_date :=
                 Some (target_end_date x \<noteq> forecast_date x + 7 * horizon x - 4)\<rparr>) (rows df)))
        = map (\<lambda>x. (forecast_date x, target_end_date x, horizon x))
          (filter (\<lambda>x. target_end_date x \<noteq> forecast_date x + 7 * horizon x - 4) (rows df))"
    by (induction "rows df" arbitrary: df) (auto simp: filter_map comp_def)
  then show ?thesis
    using assms
    by (simp add: check_target_dates_def Let_def apply_rows_in_bounds map_zip_map)
qed

text \<open>
  On a frame with at least one row, the three columns and every row in the range of the
  time stamps, \<open>check_target_dates\<close> compares every target date with forecast date +
  7 * horizon - 4 days.  It returns nothing when no row differs, and otherwise one message
  with the triples (forecast date, target date, horizon) of the rows that differ, every
  triple once.  A row that is off by one day is in the message.
\<close>

lemma check_target_dates_flags_mismatches:
  assumes "rows df \<noteq> []" "has_col df ''forecast_date''" "has_col df ''target_end_date''"
    "has_col df ''horizon''" "\<forall>x \<in> set (rows df). row_in_bounds x"
  shows "\<exists>ts. distinct ts
    \<and> set ts = (\<lambda>x. (forecast_date x, target_end_date x, horizon x)) `
                 {x \<in> set (rows df). target_end_date x \<noteq> forecast_date x + 7 * horizon x - 4}
    \<and> fst (check_target_dates df) = Inr (if ts = [] then RNone else RStr (Target_Dates_Wrong ts))
    \<and> (\<forall>x \<in> set (rows df). \<bar>target_end_date x - (forecast_date x + 7 * horizon x - 4)\<bar> = 1
          \<longrightarrow> ts \<noteq> [] \<and> (forecast_date x, target_end_date x, horizon x) \<in> set ts)
    \<and> ((\<forall>x \<in> set (rows df). target_end_date x = forecast_date x + 7 * horizon x - 4) \<longrightarrow> ts = [])"
proof -
  define ts where "ts = unique (map (\<lambda>x. (forecast_date x, target_end_date x, horizon x))
       (filter (\<lambda>x. target_end_date x \<noteq> forecast_date x + 7 * horizon x - 4) (rows df)))"
  have d: "distinct ts" by (simp add: ts_def distinct_unique)
  have s: "set ts = (\<lambda>x. (forecast_date x, target_end_date x, horizon x)) `
                 {x \<in> set (rows df). target_end_date x \<noteq> forecast_date x + 7 * horizon x - 4}"
    by (simp add: ts_def set_unique)
  have r: "fst (check_target_dates df) = Inr (if ts = [] then RNone else RStr (Target_Dates_Wrong ts))"
    using check_target_dates_result[OF assms] by (simp add: ts_def Let_def)
  have one: "\<forall>x \<in> set (rows df). \<bar>target_end_date x - (forecast_date x + 7 * horizon x - 4)\<bar> = 1
          \<longrightarrow> ts \<noteq> [] \<and> (forecast_date x, target_end_date x, horizon x) \<in> set ts"
  proof (intro ballI impI)
    fix x assume x: "x \<in> set (rows df)"
      and "\<bar>target_end_date x - (forecast_date x + 7 * horizon x - 4)\<bar> = 1"
    then have "target_end_date x \<noteq> forecast_date x + 7 * horizon x - 4" by linarith
    with x have "(forecast_date x, target_end_date x, horizon x) \<in> set ts"
      unfolding s by blast
    then show "ts \<noteq> [] \<and> (forecast_date x, target_end_date x, horizon x) \<in> set ts" by auto
  qed
  have ok: "(\<forall>x \<in> set (rows df). target_end_date x = forecast_date x + 7 * horizon x - 4) \<longrightarrow> ts = []"
  proof
    assume "\<forall>x \<in> set (rows df). target_end_date x = forecast_date x + 7 * horizon x - 4"
    then have "set ts = {}" unfolding s by blast
    then show "ts = []" by simp
  qed
  from d s r one ok show ?thesis by blast
qed

lemma distinct_singleton_list:
  assumes "distinct ts" "set ts = {a}"
  shows "ts = [a]"
proof (cases ts)
  case Nil
  with assms show ?thesis by simp
next
  case (Cons x xs)
  with assms have "x = a" by auto
  moreover from Cons assms have "set xs \<subseteq> {a}" "x \<notin> set xs" by auto
  ultimately have "xs = []" by (cases xs) auto
  with Cons \<open>x = a\<close> show ?thesis by simp
qed

lemma check_target_dates_flags_mismatches_example:
  "rows table_dates \<noteq> [] \<and> has_col table_dates ''forecast_date''
   \<and> has_col table_dates ''target_end_date'' \<and> has_col table_dates ''horizon''
   \<and> fst (check_target_dates table_dates) = Inr (RStr (Target_Dates_Wrong [(19670, 19674, 1)]))"
proof -
  have h1: "rows table_dates \<noteq> []" by (simp add: table_dates_def)
  have h2: "has_col table_dates ''forecast_date''"
    and h3: "has_col table_dates ''target_end_date''"
    and h4: "has_col table_dates ''horizon''"
    by (simp_all add: table_dates_def has_col_def VALID_COLUMNS_def)
  have h5: "\<forall>x \<in> set (rows table_dates). row_in_bounds x"
    by (simp add: table_dates_def row_ok_def row_late_def mk_row_def row_in_bounds_def
        in_bounds_def ns_per_day_def int64_max_def)
  from check_target_dates_flags_mismatches[OF h1 h2 h3 h4 h5]
  obtain ts where d: "distinct ts"
    and s: "set ts = (\<lambda>x. (forecast_date x, target_end_date x, horizon x)) `
        {x \<in> set (rows table_dates). target_end_date x \<noteq> forecast_date x + 7 * horizon x - 4}"
    and r: "fst (check_target_dates table_dates) =
        Inr (if ts = [] then RNone else RStr (Target_Dates_Wrong ts))"
    by blast
  have "{x \<in> set (rows table_dates). target_end_date x \<noteq> forecast_date x + 7 * horizon x - 4}
        = {row_late}"
    by (auto simp: table_dates_def row_ok_def row_late_def mk_row_def)
  with s have "set ts = {(19670, 19674, 1)}"
    by (simp add: row_late_def mk_row_def)
  with d have "ts = [(19670, 19674, 1)]" by (rule distinct_singleton_list)
  with r h1 h2 h3 h4 show ?thesis by simp
qed


text \<open>
  C1, at inputs where the code departs from the claim.  In the frame of a file that has
  the header and no row, every row agrees with the rule, and the claim says that the
  check gives no error: the check raises, and the orchestrator reports that it could not
  be completed.  In a frame with one row whose horizon is 1000000000000 weeks the target
  date differs from the expected one, and the claim says that the row is flagged: the
  check raises.
\<close>

theorem check_target_dates_raises_without_rows:
  "columns table_empty = VALID_COLUMNS
   \<and> rows table_empty = []
   \<and> fst (check_target_dates table_empty) = Inl ValueError
   \<and> run_checks checks table_empty [] = [Fatal_Error ''check_target_dates'']
   \<and> check_forecast (ex_env raw_no_rows table_empty) path_undated
       = Inr [Naming_Convention, Filename_Date_Format ''forecast.c'',
              Fatal_Error ''check_target_dates'']
   \<and> map target_end_date (rows table_huge_horizon) = [19673]
   \<and> map expected_target_date (rows table_huge_horizon) = [7000000019666]
   \<and> fst (check_target_dates table_huge_horizon) = Inl OverflowError"
  by code_simp

lemma length_filter_gt1:
  "1 < length (filter P xs) \<longleftrightarrow> (\<exists>i j. i < j \<and> j < length xs \<and> P (xs ! i) \<and> P (xs ! j))"
proof (induction xs)
  case Nil
  then show ?case by simp
next
  case (Cons x xs)
  show ?case
  proof (cases "P x")
    case True
    have "(\<exists>i j. i < j \<and> j < length (x # xs) \<and> P ((x # xs) ! i) \<and> P ((x # xs) ! j))
          \<longleftrightarrow> (\<exists>j < length xs. P (xs ! j))"
    proof
      assume "\<exists>i j. i < j \<and> j < length (x # xs) \<and> P ((x # xs) ! i) \<and> P ((x # xs) ! j)"
      then obtain i j where ij: "i < j" "j < length (x # xs)" "P ((x # xs) ! j)" by blast
      then obtain j' where "j = Suc j'" by (cases j) auto
      with ij show "\<exists>j < length xs. P (xs ! j)" by auto
    next
      assume "\<exists>j < length xs. P (xs ! j)"
      then obtain j where "j < length xs" "P (xs ! j)" by blast
      then have "0 < Suc j \<and> Suc j < length (x # xs) \<and> P ((x # xs) ! 0) \<and> P ((x # xs) ! Suc j)"
        using True by simp
      then show "\<exists>i j. i < j \<and> j < length (x # xs) \<and> P ((x # xs) ! i) \<and> P ((x # xs) ! j)"
        by blast
    qed
    moreover have "1 < length (filter P (x # xs)) \<longleftrightarrow> (\<exists>j < length xs. P (xs ! j))"
    proof -
      have "1 < length (filter P (x # xs)) \<longleftrightarrow> filter P xs \<noteq> []"
        using True by simp
      also have "\<dots> \<longleftrightarrow> (\<exists>y \<in> set xs. P y)"
        by (simp add: filter_empty_conv)
      also have "\<dots> \<longleftrightarrow> (\<exists>j < length xs. P (xs ! j))"
        by (metis in_set_conv_nth)
      finally show ?thesis .
    qed
    ultimately show ?thesis by simp
  next
    case False
    have "(\<exists>i j. i < j \<and> j < length (x # xs) \<and> P ((x # xs) ! i) \<and> P ((x # xs) ! j))
          \<longleftrightarrow> (\<exists>i j. i < j \<and> j < length xs \<and> P (xs ! i) \<and> P (xs ! j))"
    proof
      assume "\<exists>i j. i < j \<and> j < length (x # xs) \<and> P ((x # xs) ! i) \<and> P ((x # xs) ! j)"
      then obtain i j where ij: "i < j" "j < length (x # xs)" "P ((x # xs) ! i)" "P ((x # xs) ! j)"
        by blast
      from ij False obtain i' where i': "i = Suc i'" by (cases i) auto
      from ij obtain j' where j': "j = Suc j'" by (cases j) auto
      from ij i' j' have "i' < j' \<and> j' < length xs \<and> P (xs ! i') \<and> P (xs ! j')" by simp
      then show "\<exists>i j. i < j \<and> j < length xs \<and> P (xs ! i) \<and> P (xs ! j)" by blast
    next
      assume "\<exists>i j. i < j \<and> j < length xs \<and> P (xs ! i) \<and> P (xs ! j)"
      then obtain i j where "i < j" "j < length xs" "P (xs ! i)" "P (xs ! j)" by blast
      then have "Suc i < Suc j \<and> Suc j < length (x # xs) \<and> P ((x # xs) ! Suc i) \<and> P ((x # xs) ! Suc j)"
        by simp
      then show "\<exists>i j. i < j \<and> j < length (x # xs) \<and> P ((x # xs) ! i) \<and> P ((x # xs) ! j)"
        by blast
    qed
    with False Cons.IH show ?thesis by simp
  qed
qed

lemma duplicated_mset:
  assumes "mset rs' = mset rs"
  shows "duplicated rs' = duplicated rs"
proof
  fix r
  have "length (filter (\<lambda>s. dkey s = dkey r) rs') = size (filter_mset (\<lambda>s. dkey s = dkey r) (mset rs'))"
    by (metis mset_filter size_mset)
  also have "\<dots> = length (filter (\<lambda>s. dkey s = dkey r) rs)"
    using assms by (metis mset_filter size_mset)
  finally show "duplicated rs' r = duplicated rs r"
    by (simp add: duplicated_def)
qed

lemma reported_rows_check_duplicates:
  assumes "list_all (has_col df) dkey_columns"
  shows "reported_rows (check_duplicates df) = sort_key skey (filter (duplicated (rows df)) (rows df))"
  using assms by (auto simp: check_duplicates_def reported_rows_def Let_def)


lemma dkey_eq_iff:
  "dkey a = dkey b \<longleftrightarrow>
     location a = location b \<and> age_group a = age_group b \<and> forecast_date a = forecast_date b
     \<and> target_end_date a = target_end_date b \<and> horizon a = horizon b \<and> type a = type b
     \<and> quantile a = quantile b"
  by (auto simp: dkey_def)

lemma check_duplicates_reported:
  assumes "list_all (has_col df) dkey_columns"
    and "columns df' = columns df" and "mset (rows df') = mset (rows df)"
  shows "mset (reported_rows (check_duplicates df')) = mset (reported_rows (check_duplicates df))
    \<and> (\<forall>r. r \<in> set (reported_rows (check_duplicates df)) \<longleftrightarrow>
          (\<exists>i < length (rows df). \<exists>j < length (rows df).
              i \<noteq> j \<and> rows df ! i = r \<and> dkey (rows df ! j) = dkey r))"
proof -
  have cols': "list_all (has_col df') dkey_columns"
    using assms(1,2) by (simp add: has_col_def list_all_iff)
  have "mset (reported_rows (check_duplicates df'))
        = filter_mset (duplicated (rows df')) (mset (rows df'))"
    by (simp add: reported_rows_check_duplicates[OF cols'])
  also have "\<dots> = filter_mset (duplicated (rows df)) (mset (rows df))"
    by (simp only: duplicated_mset[OF assms(3)] assms(3))
  also have "\<dots> = mset (reported_rows (check_duplicates df))"
    by (simp add: reported_rows_check_duplicates[OF assms(1)])
  finally have perm: "mset (reported_rows (check_duplicates df')) = mset (reported_rows (check_duplicates df))" .
  have flagged: "r \<in> set (reported_rows (check_duplicates df)) \<longleftrightarrow>
          (\<exists>i < length (rows df). \<exists>j < length (rows df).
              i \<noteq> j \<and> rows df ! i = r \<and> dkey (rows df ! j) = dkey r)" for r
  proof
    assume "r \<in> set (reported_rows (check_duplicates df))"
    then have r: "r \<in> set (rows df)" and d: "duplicated (rows df) r"
      by (simp_all add: reported_rows_check_duplicates[OF assms(1)])
    from r obtain i where i: "i < length (rows df)" "rows df ! i = r"
      by (auto simp: in_set_conv_nth)
    from d obtain a b where ab: "a < b" "b < length (rows df)"
      "dkey (rows df ! a) = dkey r" "dkey (rows df ! b) = dkey r"
      unfolding duplicated_def length_filter_gt1 by blast
    show "\<exists>i < length (rows df). \<exists>j < length (rows df).
              i \<noteq> j \<and> rows df ! i = r \<and> dkey (rows df ! j) = dkey r"
    proof (cases "i = a")
      case True
      with ab have "i \<noteq> b" by simp
      with i ab(2,4) show ?thesis by blast
    next
      case False
      from ab have "a < length (rows df)" by simp
      with False i ab(3) show ?thesis by blast
    qed
  next
    assume "\<exists>i < length (rows df). \<exists>j < length (rows df).
              i \<noteq> j \<and> rows df ! i = r \<and> dkey (rows df ! j) = dkey r"
    then obtain i j where ij: "i < length (rows df)" "j < length (rows df)" "i \<noteq> j"
      "rows df ! i = r" "dkey (rows df ! j) = dkey r" by blast
    then have r: "r \<in> set (rows df)" by (auto simp: in_set_conv_nth)
    have "\<exists>a b. a < b \<and> b < length (rows df) \<and> dkey (rows df ! a) = dkey r \<and> dkey (rows df ! b) = dkey r"
    proof (cases "i < j")
      case True
      with ij show ?thesis by blast
    next
      case False
      with ij have "j < i" by simp
      with ij show ?thesis by blast
    qed
    then have "duplicated (rows df) r"
      unfolding duplicated_def length_filter_gt1 by blast
    with r show "r \<in> set (reported_rows (check_duplicates df))"
      by (simp add: reported_rows_check_duplicates[OF assms(1)])
  qed
  from perm flagged show ?thesis by blast
qed



text \<open>
  C8.  On a frame with the seven key columns, the rows that \<open>check_duplicates\<close>
  reports are the same, as a multiset, for every reordering of the rows of the frame, and
  a row is reported exactly when the frame has a row at another position that agrees with
  it in location, age group, forecast date, target date, horizon, type and quantile.
\<close>

theorem check_duplicates_permutation_invariant:
  assumes "list_all (has_col df) dkey_columns"
    and "columns df' = columns df" and "mset (rows df') = mset (rows df)"
  shows "mset (reported_rows (check_duplicates df')) = mset (reported_rows (check_duplicates df))
    \<and> (\<forall>r. r \<in> set (reported_rows (check_duplicates df)) \<longleftrightarrow>
          (\<exists>i < length (rows df). \<exists>j < length (rows df).
              i \<noteq> j \<and> rows df ! i = r
              \<and> location (rows df ! j) = location r
              \<and> age_group (rows df ! j) = age_group r
              \<and> forecast_date (rows df ! j) = forecast_date r
              \<and> target_end_date (rows df ! j) = target_end_date r
              \<and> horizon (rows df ! j) = horizon r
              \<and> type (rows df ! j) = type r
              \<and> quantile (rows df ! j) = quantile r))"
  using check_duplicates_reported[OF assms] unfolding dkey_eq_iff .

text \<open>Nine rows: the row of the median, seven rows that differ from it in one key column
  each, and a row that differs from it in the value only.  The first and the last are
  reported, in the order of the frame and in the reverse order.\<close>

theorem check_duplicates_permutation_invariant_witness:
  "list_all (has_col table_near) dkey_columns
   \<and> columns table_near_permuted = columns table_near
   \<and> mset (rows table_near_permuted) = mset (rows table_near)
   \<and> mset (reported_rows (check_duplicates table_near_permuted))
       = mset (reported_rows (check_duplicates table_near))
   \<and> reported_rows (check_duplicates table_near)
       = [q_row 0.5, (q_row 0.5)\<lparr>val := Some ''99''\<rparr>]
   \<and> reported_rows (check_duplicates table_near_permuted)
       = [(q_row 0.5)\<lparr>val := Some ''99''\<rparr>, q_row 0.5]"
proof -
  have h1: "list_all (has_col table_near) dkey_columns"
    by (simp add: table_near_def dkey_columns_def has_col_def VALID_COLUMNS_def)
  have h2: "columns table_near_permuted = columns table_near"
    by (simp add: table_near_def table_near_permuted_def)
  have h3: "mset (rows table_near_permuted) = mset (rows table_near)"
    by (simp add: table_near_def table_near_permuted_def)
  note t = check_duplicates_permutation_invariant[OF h1 h2 h3]
  have a: "reported_rows (check_duplicates table_near)
       = [q_row 0.5, (q_row 0.5)\<lparr>val := Some ''99''\<rparr>]"
    by code_simp
  have b: "reported_rows (check_duplicates table_near_permuted)
       = [(q_row 0.5)\<lparr>val := Some ''99''\<rparr>, q_row 0.5]"
    by code_simp
  from h1 h2 h3 t a b show ?thesis by blast
qed


subsection \<open>The orchestrator\<close>

lemma run_checks_step:
  "run_checks ((name, c) # cs) df errors =
     run_checks cs (snd (c df)) (errors @ check_errors name (fst (c df)))"
  by (cases "c df") (auto simp: check_errors_def split: sum.splits result.splits)

lemma run_checks_pure_step:
  "run_checks ((name, pure f) # cs) df errors =
     run_checks cs df (errors @ check_errors name (f df))"
  by (simp add: pure_def check_errors_def split: sum.splits result.splits)

lemma gkey_invalid_target_date [simp]: "gkey (x\<lparr>invalid_target_date := v\<rparr>) = gkey x"
  by (simp add: gkey_def)

lemma group_nunique_target_dates:
  "group_nunique (map (\<lambda>x. x\<lparr>invalid_target_date := F x\<rparr>) rs) (r\<lparr>invalid_target_date := v\<rparr>)
     = group_nunique rs r"
  by (simp add: group_nunique_def filter_map comp_def)

lemma quantiles_by_group_target_dates:
  "quantiles_by_group (map (\<lambda>x. x\<lparr>invalid_target_date := F x\<rparr>) rs) = quantiles_by_group rs"
  by (simp add: quantiles_by_group_def filter_map comp_def)

lemma has_col_add_column:
  "c \<noteq> n \<Longrightarrow> has_col \<lparr>columns = add_column n cs, rows = rs\<rparr> c = (c \<in> set cs)"
  by (simp add: has_col_def add_column_def)

lemma check_quantiles_ignores_invalid_target_date:
  assumes F: "\<And>x v. F (x\<lparr>no_quantiles := v\<rparr>) = F x"
  shows "fst (check_quantiles \<lparr>columns = add_column ''invalid_target_date'' (columns df),
                          rows = map (\<lambda>x. x\<lparr>invalid_target_date := F x\<rparr>) (rows df)\<rparr>)
   = fst (check_quantiles df)"
proof -
  let ?f = "\<lambda>x. x\<lparr>invalid_target_date := F x\<rparr>"
  let ?df = "\<lparr>columns = add_column ''invalid_target_date'' (columns df), rows = map ?f (rows df)\<rparr>"
  have hc: "has_col ?df c = has_col df c" if "c \<noteq> ''invalid_target_date''" for c
    using that by (simp add: has_col_add_column) (simp add: has_col_def)
  have rows: "rows (set_no_quantiles ?df) = map ?f (rows (set_no_quantiles df))"
    by (simp add: set_no_quantiles_def hc group_nunique_target_dates comp_def F)
  have inc: "filter (\<lambda>r. no_quantiles r \<noteq> Some 7 \<and> no_quantiles r \<noteq> None) (rows (set_no_quantiles ?df))
      = map ?f (filter (\<lambda>r. no_quantiles r \<noteq> Some 7 \<and> no_quantiles r \<noteq> None) (rows (set_no_quantiles df)))"
    by (simp add: rows filter_map comp_def)
  have om: "list_all (\<lambda>r. type r = ''mean'') (rows (set_no_quantiles ?df))
      = list_all (\<lambda>r. type r = ''mean'') (rows (set_no_quantiles df))"
    by (simp add: rows list_all_iff)
  have omd: "list_all (\<lambda>r. quantile r = Some 0.5) (filter (\<lambda>r. type r = ''quantile'') (rows (set_no_quantiles ?df)))
      = list_all (\<lambda>r. quantile r = Some 0.5) (filter (\<lambda>r. type r = ''quantile'') (rows (set_no_quantiles df)))"
    by (simp add: rows filter_map comp_def list_all_iff)
  show ?thesis
    unfolding check_quantiles_def Let_def inc om omd
    by (simp add: hc quantiles_by_group_target_dates del: One_nat_def)
qed

lemma check_quantiles_after_target_dates:
  "fst (check_quantiles (snd (check_target_dates df))) = fst (check_quantiles df)"
proof (cases "fst (check_target_dates df)")
  case (Inl x)
  then show ?thesis by (simp add: check_target_dates_raises_frame)
next
  case (Inr r)
  then show ?thesis
    by (simp add: check_target_dates_returns_frame check_quantiles_ignores_invalid_target_date)
qed

lemma run_checks_checks:
  "run_checks checks df errors = errors
     @ check_errors ''check_header'' (check_header df)
     @ check_errors ''check_column_values'' (check_column_values df)
     @ check_errors ''check_value'' (check_value df)
     @ check_errors ''check_mean'' (check_mean df)
     @ check_errors ''check_duplicates'' (check_duplicates df)
     @ check_errors ''check_target_dates'' (fst (check_target_dates df))
     @ check_errors ''check_quantiles'' (fst (check_quantiles df))"
  unfolding checks_def
  by (simp only: run_checks_step run_checks.simps append_assoc pure_def fst_conv snd_conv
      check_quantiles_after_target_dates)

lemma check_errors_Nil_iff:
  "check_errors name res = [] \<longleftrightarrow> res = Inr RNone \<or> res = Inr (RList [])"
  by (auto simp: check_errors_def split: sum.splits result.splits)

lemma check_errors_result_list: "check_errors name (Inr r) = result_list r"
  by (cases r) (simp_all add: check_errors_def)

text \<open>
  C4.  When the date check returns and the file is read, \<open>check_forecast\<close> returns the
  concatenation of what the path check, the date check and then the seven checks add, in
  the order check\_header, check\_column\_values, check\_value, check\_mean,
  check\_duplicates, check\_target\_dates, check\_quantiles.  A check that raises adds
  exactly the one message that names it, and the checks after it still run; a check that
  returns nothing adds nothing, one that returns a message adds that message, and one
  that returns a list adds all the messages of the list, in their order.  The list is
  empty exactly when the path check and the date check return nothing and each of the
  seven checks returns without a message.
\<close>

theorem check_forecast_concatenates:
  assumes "check_forecast_date e filepath = Inr rd" and "read_csv_dates e filepath = Inr df"
  shows "check_forecast e filepath =
      Inr (check_errors ''check_filepath'' (Inr (check_filepath filepath))
        @ check_errors ''check_forecast_date'' (Inr rd)
        @ check_errors ''check_header'' (check_header df)
        @ check_errors ''check_column_values'' (check_column_values df)
        @ check_errors ''check_value'' (check_value df)
        @ check_errors ''check_mean'' (check_mean df)
        @ check_errors ''check_duplicates'' (check_duplicates df)
        @ check_errors ''check_target_dates'' (fst (check_target_dates df))
        @ check_errors ''check_quantiles'' (fst (check_quantiles df)))
    \<and> (check_forecast e filepath = Inr [] \<longleftrightarrow>
         check_filepath filepath = RNone \<and> (rd = RNone \<or> rd = RList [])
         \<and> (\<forall>res \<in> {check_header df, check_column_values df, check_value df, check_mean df,
                       check_duplicates df, fst (check_target_dates df), fst (check_quantiles df)}.
               res = Inr RNone \<or> res = Inr (RList [])))
    \<and> (\<forall>name x. check_errors name (Inl x) = [Fatal_Error name])
    \<and> (\<forall>name. check_errors name (Inr RNone) = [])
    \<and> (\<forall>name m. check_errors name (Inr (RStr m)) = [m])
    \<and> (\<forall>name ms. check_errors name (Inr (RList ms)) = ms)"
proof -
  have eq: "check_forecast e filepath =
      Inr (check_errors ''check_filepath'' (Inr (check_filepath filepath))
        @ check_errors ''check_forecast_date'' (Inr rd)
        @ check_errors ''check_header'' (check_header df)
        @ check_errors ''check_column_values'' (check_column_values df)
        @ check_errors ''check_value'' (check_value df)
        @ check_errors ''check_mean'' (check_mean df)
        @ check_errors ''check_duplicates'' (check_duplicates df)
        @ check_errors ''check_target_dates'' (fst (check_target_dates df))
        @ check_errors ''check_quantiles'' (fst (check_quantiles df)))"
    using assms
    by (simp add: check_forecast_def Let_def run_checks_checks check_errors_result_list)
  have fp: "check_errors ''check_filepath'' (Inr (check_filepath filepath)) = []
      \<longleftrightarrow> check_filepath filepath = RNone"
    by (simp add: check_filepath_def check_errors_def)
  have empty: "check_forecast e filepath = Inr [] \<longleftrightarrow>
         check_filepath filepath = RNone \<and> (rd = RNone \<or> rd = RList [])
         \<and> (\<forall>res \<in> {check_header df, check_column_values df, check_value df, check_mean df,
                       check_duplicates df, fst (check_target_dates df), fst (check_quantiles df)}.
               res = Inr RNone \<or> res = Inr (RList []))"
    unfolding eq by (simp add: fp) (simp add: check_errors_Nil_iff)
  have "\<forall>name x. check_errors name (Inl x) = [Fatal_Error name]"
    and "\<forall>name. check_errors name (Inr RNone) = []"
    and "\<forall>name m. check_errors name (Inr (RStr m)) = [m]"
    and "\<forall>name ms. check_errors name (Inr (RList ms)) = ms"
    by (simp_all add: check_errors_def)
  with eq empty show ?thesis by blast
qed

lemma ex_date_ok: "check_forecast_date (ex_env raw_ok df) path_ok = Inr RNone"
  by (simp add: check_forecast_date_def ex_env_def ex_to_datetime_date_def path_ok_def
      basename_def raw_ok_def nunique_def unique_def dropna_def)

text \<open>A frame on which two checks return two messages each and four checks raise.\<close>

theorem check_forecast_concatenates_witness:
  "check_forecast_date (ex_env raw_ok table_two_messages) path_ok = Inr RNone
   \<and> read_csv_dates (ex_env raw_ok table_two_messages) path_ok = Inr table_two_messages
   \<and> check_header table_two_messages
       = Inr (RList [Columns_Missing [''horizon''], Columns_Not_Accepted [''extra'']])
   \<and> check_value table_two_messages = Inr (RList [Missing_Values 1, Non_Numeric [''abc'']])
   \<and> check_forecast (ex_env raw_ok table_two_messages) path_ok =
       Inr [Columns_Missing [''horizon''], Columns_Not_Accepted [''extra''],
            Fatal_Error ''check_column_values'',
            Missing_Values 1, Non_Numeric [''abc''],
            Fatal_Error ''check_duplicates'', Fatal_Error ''check_target_dates'',
            Fatal_Error ''check_quantiles'']"
proof -
  have h1: "check_forecast_date (ex_env raw_ok table_two_messages) path_ok = Inr RNone"
    by (rule ex_date_ok)
  have h2: "read_csv_dates (ex_env raw_ok table_two_messages) path_ok = Inr table_two_messages"
    by (simp add: ex_env_def)
  have p: "check_filepath path_ok = RNone"
    unfolding path_ok_def by code_simp
  have c1: "check_header table_two_messages
       = Inr (RList [Columns_Missing [''horizon''], Columns_Not_Accepted [''extra'']])"
    by (simp add: check_header_def table_two_messages_def VALID_COLUMNS_def)
  have c2: "check_column_values table_two_messages = Inl AttributeError"
    by (simp add: check_column_values_def table_two_messages_def VALID_COLUMNS_def has_col_def)
  have c3: "check_value table_two_messages = Inr (RList [Missing_Values 1, Non_Numeric [''abc'']])"
    by (simp add: check_value_def table_two_messages_def VALID_COLUMNS_def has_col_def
        row_ok_def row_late_def mk_row_def isnull_sum_def dropna_def astype_str_def
        isnumeric_def is_digit_def)
  have c4: "check_mean table_two_messages = Inr RNone"
    by (simp add: check_mean_def table_two_messages_def VALID_COLUMNS_def has_col_def
        row_ok_def row_late_def mk_row_def)
  have c5: "check_duplicates table_two_messages = Inl KeyError"
    by (simp add: check_duplicates_def table_two_messages_def VALID_COLUMNS_def has_col_def
        dkey_columns_def)
  have c6: "fst (check_target_dates table_two_messages) = Inl AttributeError"
    by (simp add: check_target_dates_def table_two_messages_def VALID_COLUMNS_def has_col_def)
  have c7: "fst (check_quantiles table_two_messages) = Inl KeyError"
    by (simp add: check_quantiles_def table_two_messages_def VALID_COLUMNS_def has_col_def)
  from check_forecast_concatenates[OF h1 h2]
  have "check_forecast (ex_env raw_ok table_two_messages) path_ok =
       Inr [Columns_Missing [''horizon''], Columns_Not_Accepted [''extra''],
            Fatal_Error ''check_column_values'',
            Missing_Values 1, Non_Numeric [''abc''],
            Fatal_Error ''check_duplicates'', Fatal_Error ''check_target_dates'',
            Fatal_Error ''check_quantiles'']"
    by (simp add: p c1 c2 c3 c4 c5 c6 c7 check_errors_def)
  with h1 h2 c1 c3 show ?thesis by blast
qed

text \<open>
  C10.  The first five checks of the orchestrator leave the frame as it is.
  \<open>check_target_dates\<close>, when it returns, adds the column \<^verbatim>\<open>invalid_target_date\<close> and
  changes nothing else; \<open>check_quantiles\<close>, when it returns, adds the column
  \<^verbatim>\<open>no_quantiles\<close> and changes nothing else.  The two run as the sixth and the seventh
  check, and the result of \<open>check_quantiles\<close> on the frame that \<open>check_target_dates\<close> has
  written to is its result on the frame as read: in the loop every check contributes
  what it gives on the frame as read.
\<close>

theorem helper_columns_do_not_change_results:
  "(\<forall>(name, c) \<in> set checks.
       name \<notin> {''check_target_dates'', ''check_quantiles''} \<longrightarrow> snd (c df) = df)
   \<and> map fst checks = [''check_header'', ''check_column_values'', ''check_value'', ''check_mean'',
        ''check_duplicates'', ''check_target_dates'', ''check_quantiles'']
   \<and> (\<forall>r. fst (check_target_dates df) = Inr r \<longrightarrow>
         columns (snd (check_target_dates df)) = add_column ''invalid_target_date'' (columns df)
         \<and> has_col (snd (check_target_dates df)) ''invalid_target_date''
         \<and> map invalid_target_date (rows (snd (check_target_dates df)))
             = map (\<lambda>x. Some (target_end_date x \<noteq> forecast_date x + 7 * horizon x - 4)) (rows df)
         \<and> map (\<lambda>x. x\<lparr>invalid_target_date := None\<rparr>) (rows (snd (check_target_dates df)))
             = map (\<lambda>x. x\<lparr>invalid_target_date := None\<rparr>) (rows df))
   \<and> (\<forall>r. fst (check_quantiles df) = Inr r \<longrightarrow>
         columns (snd (check_quantiles df)) = add_column ''no_quantiles'' (columns df)
         \<and> has_col (snd (check_quantiles df)) ''no_quantiles''
         \<and> map (\<lambda>x. x\<lparr>no_quantiles := None\<rparr>) (rows (snd (check_quantiles df)))
             = map (\<lambda>x. x\<lparr>no_quantiles := None\<rparr>) (rows df))
   \<and> fst (check_quantiles (snd (check_target_dates df))) = fst (check_quantiles df)
   \<and> run_checks checks df errors = errors
       @ check_errors ''check_header'' (check_header df)
       @ check_errors ''check_column_values'' (check_column_values df)
       @ check_errors ''check_value'' (check_value df)
       @ check_errors ''check_mean'' (check_mean df)
       @ check_errors ''check_duplicates'' (check_duplicates df)
       @ check_errors ''check_target_dates'' (fst (check_target_dates df))
       @ check_errors ''check_quantiles'' (fst (check_quantiles df))"
proof -
  have pure: "\<forall>(name, c) \<in> set checks.
       name \<notin> {''check_target_dates'', ''check_quantiles''} \<longrightarrow> snd (c df) = df"
    by (simp add: checks_def pure_def)
  have names: "map fst checks = [''check_header'', ''check_column_values'', ''check_value'',
        ''check_mean'', ''check_duplicates'', ''check_target_dates'', ''check_quantiles'']"
    by (simp add: checks_def)
  have td: "\<forall>r. fst (check_target_dates df) = Inr r \<longrightarrow>
         columns (snd (check_target_dates df)) = add_column ''invalid_target_date'' (columns df)
         \<and> has_col (snd (check_target_dates df)) ''invalid_target_date''
         \<and> map invalid_target_date (rows (snd (check_target_dates df)))
             = map (\<lambda>x. Some (target_end_date x \<noteq> forecast_date x + 7 * horizon x - 4)) (rows df)
         \<and> map (\<lambda>x. x\<lparr>invalid_target_date := None\<rparr>) (rows (snd (check_target_dates df)))
             = map (\<lambda>x. x\<lparr>invalid_target_date := None\<rparr>) (rows df)"
    by (auto simp: check_target_dates_returns_frame has_col_def add_column_def comp_def)
  have q: "\<forall>r. fst (check_quantiles df) = Inr r \<longrightarrow>
         columns (snd (check_quantiles df)) = add_column ''no_quantiles'' (columns df)
         \<and> has_col (snd (check_quantiles df)) ''no_quantiles''
         \<and> map (\<lambda>x. x\<lparr>no_quantiles := None\<rparr>) (rows (snd (check_quantiles df)))
             = map (\<lambda>x. x\<lparr>no_quantiles := None\<rparr>) (rows df)"
    by (auto simp: check_quantiles_def Let_def set_no_quantiles_def has_col_def add_column_def
        split: if_splits)
  from pure names td q check_quantiles_after_target_dates[of df] run_checks_checks[of df errors]
  show ?thesis by blast
qed

theorem helper_columns_do_not_change_results_witness:
  "fst (check_target_dates table_dates) = Inr (RStr (Target_Dates_Wrong [(19670, 19674, 1)]))
   \<and> columns (snd (check_target_dates table_dates)) = VALID_COLUMNS @ [''invalid_target_date'']
   \<and> fst (check_quantiles table_dates) = Inr RNone
   \<and> columns (snd (check_quantiles table_dates)) = VALID_COLUMNS @ [''no_quantiles'']
   \<and> run_checks checks table_dates [] = [Target_Dates_Wrong [(19670, 19674, 1)]]
   \<and> check_header (snd (check_target_dates table_dates))
       = Inr (RList [Columns_Not_Accepted [''invalid_target_date'']])
   \<and> check_header table_dates = Inr RNone"
proof -
  note t = helper_columns_do_not_change_results[of table_dates "[]"]
  have cols: "columns table_dates = VALID_COLUMNS" by (simp add: table_dates_def)
  have a: "fst (check_target_dates table_dates) = Inr (RStr (Target_Dates_Wrong [(19670, 19674, 1)]))"
    by code_simp
  with t have b: "columns (snd (check_target_dates table_dates)) = VALID_COLUMNS @ [''invalid_target_date'']"
    by (simp add: cols add_column_def VALID_COLUMNS_def)
  have c: "fst (check_quantiles table_dates) = Inr RNone"
    by (simp add: check_quantiles_def table_dates_def has_col_def VALID_COLUMNS_def
        row_ok_def row_late_def mk_row_def set_no_quantiles_def Let_def)
  with t have d: "columns (snd (check_quantiles table_dates)) = VALID_COLUMNS @ [''no_quantiles'']"
    by (simp add: cols add_column_def VALID_COLUMNS_def)
  have h: "check_header table_dates = Inr RNone"
    by (simp add: check_header_def table_dates_def VALID_COLUMNS_def)
  have h': "check_header (snd (check_target_dates table_dates))
       = Inr (RList [Columns_Not_Accepted [''invalid_target_date'']])"
    by (simp add: check_header_def b) (simp add: VALID_COLUMNS_def)
  have c2: "check_column_values table_dates = Inr RNone"
    by (simp add: check_column_values_def table_dates_def VALID_COLUMNS_def has_col_def
        row_ok_def row_late_def mk_row_def unique_def dropna_def LOCATION_CODES_def VALID_TYPES_def
        VALID_AGE_GROUPS_def VALID_HORIZONS_def)
  have c3: "check_value table_dates = Inr RNone"
    by (simp add: check_value_def table_dates_def VALID_COLUMNS_def has_col_def
        row_ok_def row_late_def mk_row_def isnull_sum_def dropna_def astype_str_def isnumeric_def
        is_digit_def)
  have c4: "check_mean table_dates = Inr RNone"
    by (simp add: check_mean_def table_dates_def VALID_COLUMNS_def has_col_def
        row_ok_def row_late_def mk_row_def)
  have c5: "check_duplicates table_dates = Inr RNone"
    by (simp add: check_duplicates_def table_dates_def VALID_COLUMNS_def has_col_def
        dkey_columns_def duplicated_def dkey_def row_ok_def row_late_def mk_row_def)
  from t have "run_checks checks table_dates [] = [Target_Dates_Wrong [(19670, 19674, 1)]]"
    by (simp add: a c h c2 c3 c4 c5 check_errors_def)
  with a b c d h h' show ?thesis by blast
qed

subsection \<open>The date check\<close>

text \<open>
  C5, as amended.  On a file that can be read and whose column \<^verbatim>\<open>forecast_date\<close> has
  at least one row, \<open>check_forecast_date\<close> returns nothing or exactly one message, the
  message of the first of these steps that fails: (1) the first 10 characters of the base
  name are read as a date; (2) the column has at most one distinct value (the step fails
  only when there is more than one); (3) the first cell of the column is read as a date;
  (4) the two dates are equal; (5) unless the path contains \<^verbatim>\<open>retrospective\<close>, the
  date of the file name is at most one day from the current date.
\<close>

theorem check_forecast_date_first_failing_step:
  assumes "read_csv e filepath = Inr df" and "map_of df ''forecast_date'' = Some (c # cs)"
  shows
    "(to_datetime_date e (Some (take 10 (basename filepath))) = None \<longrightarrow>
        check_forecast_date e filepath
          = Inr (RStr (Filename_Date_Format (take 10 (basename filepath)))))
     \<and> (\<forall>fd. to_datetime_date e (Some (take 10 (basename filepath))) = Some fd \<longrightarrow>
          (nunique (c # cs) > 1 \<longrightarrow>
             check_forecast_date e filepath = Inr (RStr (Multiple_Forecast_Dates (unique (c # cs)))))
        \<and> (nunique (c # cs) \<le> 1 \<longrightarrow>
             (to_datetime_date e c = None \<longrightarrow>
                check_forecast_date e filepath = Inr (RStr (Column_Date_Format c)))
           \<and> (\<forall>cd. to_datetime_date e c = Some cd \<and> date_ne fd cd \<longrightarrow>
                check_forecast_date e filepath = Inr (RStr (Date_Mismatch (basename filepath) cd)))
           \<and> (\<forall>d. fd = Date d \<and> to_datetime_date e c = Some (Date d) \<longrightarrow>
                check_forecast_date e filepath =
                  Inr (if \<not> contains ''retrospective'' filepath \<and> \<bar>d - today e\<bar> > 1
                       then RStr (Not_Made_Today d (today e)) else RNone))))
     \<and> (check_forecast_date e filepath = Inr RNone
          \<or> (\<exists>m. check_forecast_date e filepath = Inr (RStr m)))"
  using assms
  by (auto simp: check_forecast_date_def split: option.splits pydate.splits)


lemma ex_basename: "take 10 (basename path_ok) = ''2023-11-09''"
  by (simp add: path_ok_def basename_def)

lemma ex_basename_retro: "take 10 (basename path_retrospective) = ''2023-11-09''"
  by (simp add: path_retrospective_def basename_def)

lemma ex_contains: "\<not> contains ''retrospective'' path_ok"
  unfolding path_ok_def by code_simp

lemma ex_contains_retro: "contains ''retrospective'' path_retrospective"
  unfolding path_retrospective_def by code_simp

text \<open>A fresh file gives nothing; ten days later the same file gives the message of
  step 5, and nothing when its path contains \<^verbatim>\<open>retrospective\<close>.\<close>

theorem check_forecast_date_first_failing_step_witness:
  "read_csv (ex_env raw_ok table_dates) path_ok = Inr raw_ok
   \<and> map_of raw_ok ''forecast_date'' = Some [Some ''2023-11-09'', Some ''2023-11-09'']
   \<and> check_forecast_date (ex_env raw_ok table_dates) path_ok = Inr RNone
   \<and> check_forecast_date ((ex_env raw_ok table_dates)\<lparr>today := 19680\<rparr>) path_ok
       = Inr (RStr (Not_Made_Today 19670 19680))
   \<and> check_forecast_date ((ex_env raw_ok table_dates)\<lparr>today := 19680\<rparr>) path_retrospective
       = Inr RNone"
proof -
  let ?e = "ex_env raw_ok table_dates"
  let ?c = "Some ''2023-11-09''"
  have h1: "read_csv (?e\<lparr>today := t\<rparr>) p = Inr raw_ok" for t p
    by (simp add: ex_env_def)
  have h2: "map_of raw_ok ''forecast_date'' = Some [?c, ?c]"
    by (simp add: raw_ok_def)
  have fd: "to_datetime_date (?e\<lparr>today := t\<rparr>) ?c = Some (Date 19670)" for t
    by (simp add: ex_env_def ex_to_datetime_date_def)
  have nu: "nunique [?c, ?c] \<le> 1"
    by (simp add: nunique_def unique_def dropna_def)
  have td: "today (?e\<lparr>today := t\<rparr>) = t" for t by simp
  have e0: "?e\<lparr>today := 19670\<rparr> = ?e" by (simp add: ex_env_def)
  from check_forecast_date_first_failing_step[OF h1 h2, of 19670 path_ok]
  have a: "check_forecast_date ?e path_ok = Inr RNone"
    using fd[of 19670] nu td[of 19670] by (simp add: ex_basename ex_contains e0)
  from check_forecast_date_first_failing_step[OF h1 h2, of 19680 path_ok]
  have b: "check_forecast_date (?e\<lparr>today := 19680\<rparr>) path_ok = Inr (RStr (Not_Made_Today 19670 19680))"
    using fd[of 19680] nu by (simp add: ex_basename ex_contains)
  from check_forecast_date_first_failing_step[OF h1 h2, of 19680 path_retrospective]
  have c: "check_forecast_date (?e\<lparr>today := 19680\<rparr>) path_retrospective = Inr RNone"
    using fd[of 19680] nu by (simp add: ex_basename_retro ex_contains_retro)
  from h1[of 19670 path_ok] h2 a b c show ?thesis by (simp add: e0)
qed

text \<open>
  C5 as stated requires exactly one distinct value in step 2.  A file with the header
  and no row has no distinct value: step 1 passes, step 2 does not return its message,
  and the check ends with an exception and no message.
\<close>

theorem check_forecast_date_zero_distinct_values:
  "to_datetime_date (ex_env raw_no_rows table_empty) (Some (take 10 (basename path_ok)))
     = Some (Date 19670)
   \<and> read_csv (ex_env raw_no_rows table_empty) path_ok = Inr raw_no_rows
   \<and> map_of raw_no_rows ''forecast_date'' = Some []
   \<and> nunique ([] :: string option list) = 0
   \<and> check_forecast_date (ex_env raw_no_rows table_empty) path_ok = Inl IndexError"
  by (simp add: check_forecast_date_def ex_env_def ex_to_datetime_date_def ex_basename
      raw_no_rows_def nunique_def unique_def dropna_def)

text \<open>
  C9, as amended.  When the first 10 characters of the base name are read as a date and
  the file can be read, a frame without the column \<^verbatim>\<open>forecast_date\<close> and a frame
  whose column \<^verbatim>\<open>forecast_date\<close> has no row make \<open>check_forecast_date\<close> raise, and
  \<open>check_forecast\<close> raises with it: no list of errors is returned.
\<close>

theorem check_forecast_date_not_isolated:
  assumes "to_datetime_date e (Some (take 10 (basename filepath))) = Some fd"
    and "read_csv e filepath = Inr df"
    and "map_of df ''forecast_date'' = None \<or> map_of df ''forecast_date'' = Some []"
  shows "check_forecast_date e filepath
           = Inl (if map_of df ''forecast_date'' = None then AttributeError else IndexError)
    \<and> check_forecast e filepath
           = Inl (if map_of df ''forecast_date'' = None then AttributeError else IndexError)"
proof -
  have "check_forecast_date e filepath
           = Inl (if map_of df ''forecast_date'' = None then AttributeError else IndexError)"
    using assms
    by (auto simp: check_forecast_date_def nunique_def unique_def dropna_def)
  then show ?thesis by (simp add: check_forecast_def Let_def)
qed

theorem check_forecast_date_not_isolated_witness:
  "to_datetime_date (ex_env raw_no_rows table_empty) (Some (take 10 (basename path_ok)))
     = Some (Date 19670)
   \<and> read_csv (ex_env raw_no_rows table_empty) path_ok = Inr raw_no_rows
   \<and> map_of raw_no_rows ''forecast_date'' = Some []
   \<and> check_forecast (ex_env raw_no_rows table_empty) path_ok = Inl IndexError
   \<and> read_csv (ex_env raw_no_forecast_date table_dates) path_ok = Inr raw_no_forecast_date
   \<and> map_of raw_no_forecast_date ''forecast_date'' = None
   \<and> check_forecast (ex_env raw_no_forecast_date table_dates) path_ok = Inl AttributeError"
proof -
  have p: "to_datetime_date (ex_env raw df) (Some (take 10 (basename path_ok))) = Some (Date 19670)"
    for raw df
    by (simp add: ex_env_def ex_to_datetime_date_def ex_basename)
  have r: "read_csv (ex_env raw df) path_ok = Inr raw" for raw df
    by (simp add: ex_env_def)
  have m1: "map_of raw_no_rows ''forecast_date'' = Some []" by (simp add: raw_no_rows_def)
  have m2: "map_of raw_no_forecast_date ''forecast_date'' = None"
    by (simp add: raw_no_forecast_date_def)
  from check_forecast_date_not_isolated[OF p r, of raw_no_rows table_empty] m1
  have a: "check_forecast (ex_env raw_no_rows table_empty) path_ok = Inl IndexError" by simp
  from check_forecast_date_not_isolated[OF p r, of raw_no_forecast_date table_dates] m2
  have b: "check_forecast (ex_env raw_no_forecast_date table_dates) path_ok = Inl AttributeError"
    by simp
  from p r m1 m2 a b show ?thesis by simp
qed

text \<open>
  C9 as stated covers every file whose column \<^verbatim>\<open>forecast_date\<close> has no row.  When the
  name of such a file does not start with a date, the date check returns the message of
  its first step before it reads the file, and \<open>check_forecast\<close> returns a list.
\<close>

theorem check_forecast_returns_for_undated_empty_file:
  "read_csv (ex_env raw_no_rows table_empty) path_undated = Inr raw_no_rows
   \<and> map_of raw_no_rows ''forecast_date'' = Some []
   \<and> check_forecast_date (ex_env raw_no_rows table_empty) path_undated
       = Inr (RStr (Filename_Date_Format ''forecast.c''))
   \<and> \<not> isl (check_forecast (ex_env raw_no_rows table_empty) path_undated)"
proof -
  have b: "take 10 (basename path_undated) = ''forecast.c''"
    by (simp add: path_undated_def basename_def)
  have d: "check_forecast_date (ex_env raw_no_rows table_empty) path_undated
       = Inr (RStr (Filename_Date_Format ''forecast.c''))"
    by (simp add: check_forecast_date_def b ex_env_def ex_to_datetime_date_def)
  have "\<not> isl (check_forecast (ex_env raw_no_rows table_empty) path_undated)"
    by (simp add: check_forecast_def d Let_def) (simp add: ex_env_def)
  with d show ?thesis by (simp add: ex_env_def raw_no_rows_def)
qed

subsection \<open>Quantiles\<close>

lemma nunique_card: "nunique xs = card (set (dropna xs))"
  by (metis nunique_def distinct_card distinct_unique set_unique)

lemma group_rows_filter:
  "group_rows rs r = filter (\<lambda>s. gkey s = gkey r) (filter (\<lambda>s. type s \<noteq> ''mean'') rs)"
  by (simp add: group_rows_def conj_commute)

lemma group_nunique_card: "group_nunique rs r = card (group_levels rs r)"
  by (simp add: group_nunique_def group_levels_def nunique_card group_rows_filter)

lemma group_levels_cong: "gkey s = gkey r \<Longrightarrow> group_levels rs s = group_levels rs r"
  by (simp add: group_levels_def group_rows_def)

lemma gkey_no_quantiles [simp]: "gkey (x\<lparr>no_quantiles := v\<rparr>) = gkey x"
  by (simp add: gkey_def)

lemma quantiles_by_group_no_quantiles:
  "quantiles_by_group (map (\<lambda>x. x\<lparr>no_quantiles := F x\<rparr>) rs) = quantiles_by_group rs"
  by (simp add: quantiles_by_group_def filter_map comp_def)

lemma check_quantiles_fresh:
  assumes "has_col df ''type''"
    and "list_all (has_col df) [''location'', ''age_group'', ''horizon'', ''target_end_date'', ''quantile'']"
    and "\<not> has_col df ''no_quantiles''"
  shows "fst (check_quantiles df) =
      Inr (if incomplete_rows (rows df) \<noteq> []
              \<and> \<not> (\<forall>r \<in> set (rows df). type r = ''mean'')
              \<and> \<not> (\<forall>r \<in> set (rows df). type r = ''quantile'' \<longrightarrow> quantile r = Some 0.5)
           then RStr (Quantiles_Missing (quantiles_by_group (incomplete_rows (rows df))))
           else RNone)"
proof -
  let ?upd = "\<lambda>r. r\<lparr>no_quantiles :=
      (if type r \<noteq> ''mean'' then Some (group_nunique (rows df) r) else None)\<rparr>"
  have rows: "rows (set_no_quantiles df) = map ?upd (rows df)"
    using assms(3) by (simp add: set_no_quantiles_def)
  have inc: "filter (\<lambda>r. no_quantiles r \<noteq> Some 7 \<and> no_quantiles r \<noteq> None) (rows (set_no_quantiles df))
      = map ?upd (incomplete_rows (rows df))"
    unfolding rows incomplete_rows_def filter_map comp_def
    by (rule arg_cong[where f = "map ?upd"], rule filter_cong) (auto simp: group_nunique_card)
  have om: "list_all (\<lambda>r. type r = ''mean'') (rows (set_no_quantiles df))
      \<longleftrightarrow> (\<forall>r \<in> set (rows df). type r = ''mean'')"
    by (simp add: rows list_all_iff)
  have omd: "list_all (\<lambda>r. quantile r = Some 0.5) (filter (\<lambda>r. type r = ''quantile'') (rows (set_no_quantiles df)))
      \<longleftrightarrow> (\<forall>r \<in> set (rows df). type r = ''quantile'' \<longrightarrow> quantile r = Some 0.5)"
    by (simp add: rows filter_map comp_def list_all_iff) blast
  show ?thesis
    using assms(1,2) unfolding check_quantiles_def Let_def inc om omd
    by (simp add: quantiles_by_group_no_quantiles del: One_nat_def)
qed

lemma quantiles_by_group_keys:
  "map fst (quantiles_by_group rs) = sort (unique (map gkey rs))"
  by (simp add: quantiles_by_group_def comp_def)

lemma quantiles_by_group_mem:
  assumes "r \<in> set rs"
  shows "(gkey r, unique (map quantile (filter (\<lambda>s. gkey s = gkey r) rs))) \<in> set (quantiles_by_group rs)"
  using assms by (auto simp: quantiles_by_group_def set_unique)

lemma incomplete_rows_group:
  assumes "r \<in> set (incomplete_rows rs)"
  shows "filter (\<lambda>s. gkey s = gkey r) (incomplete_rows rs) = group_rows rs r"
proof -
  from assms have r: "card (group_levels rs r) \<noteq> 7" by (simp add: incomplete_rows_def)
  show ?thesis
    unfolding incomplete_rows_def group_rows_def filter_filter
  proof (rule filter_cong[OF refl])
    fix s
    show "((type s \<noteq> ''mean'' \<and> card (group_levels rs s) \<noteq> 7) \<and> gkey s = gkey r)
          = (type s \<noteq> ''mean'' \<and> gkey s = gkey r)"
    proof (cases "gkey s = gkey r")
      case True
      from group_levels_cong[OF True, of rs] r show ?thesis by simp
    next
      case False
      then show ?thesis by simp
    qed
  qed
qed

lemma card_VALID_QUANTILES: "card (set VALID_QUANTILES) = 7"
  by (simp add: VALID_QUANTILES_def)

text \<open>
  On a frame that has the columns the check reads and does not come with a column
  \<^verbatim>\<open>no_quantiles\<close>, \<open>check_quantiles\<close> groups the rows whose type is not
  \<^verbatim>\<open>mean\<close> by (location, age group, horizon, target date) and calls a group incomplete
  when the number of its distinct quantile levels is not 7.  It returns one message if
  and only if some group is incomplete, not every row has type \<^verbatim>\<open>mean\<close>, and not every
  row of type \<^verbatim>\<open>quantile\<close> has the level 0.5; the message lists every incomplete
  group once, with the quantile cells of its rows.  When every group has the seven levels
  of \<open>VALID_QUANTILES\<close> the check returns nothing, however often a row is repeated.
\<close>

lemma check_quantiles_incomplete_groups:
  assumes "has_col df ''type''"
    and "list_all (has_col df) [''location'', ''age_group'', ''horizon'', ''target_end_date'', ''quantile'']"
    and "\<not> has_col df ''no_quantiles''"
  shows "\<exists>listing.
      fst (check_quantiles df) =
        Inr (if (\<exists>r \<in> set (rows df). type r \<noteq> ''mean'' \<and> card (group_levels (rows df) r) \<noteq> 7)
                \<and> \<not> (\<forall>r \<in> set (rows df). type r = ''mean'')
                \<and> \<not> (\<forall>r \<in> set (rows df). type r = ''quantile'' \<longrightarrow> quantile r = Some 0.5)
             then RStr (Quantiles_Missing listing) else RNone)
      \<and> distinct (map fst listing)
      \<and> set (map fst listing) =
          gkey ` {r \<in> set (rows df). type r \<noteq> ''mean'' \<and> card (group_levels (rows df) r) \<noteq> 7}
      \<and> (\<forall>r \<in> set (rows df). type r \<noteq> ''mean'' \<and> card (group_levels (rows df) r) \<noteq> 7 \<longrightarrow>
            (\<exists>qs. (gkey r, qs) \<in> set listing \<and> set qs = quantile ` set (group_rows (rows df) r)))
      \<and> ((\<forall>r \<in> set (rows df). type r \<noteq> ''mean'' \<longrightarrow> group_levels (rows df) r = set VALID_QUANTILES)
            \<longrightarrow> fst (check_quantiles df) = Inr RNone)"
proof -
  define inc where "inc = incomplete_rows (rows df)"
  define listing where "listing = quantiles_by_group inc"
  have set_inc: "set inc = {r \<in> set (rows df). type r \<noteq> ''mean'' \<and> card (group_levels (rows df) r) \<noteq> 7}"
    by (auto simp: inc_def incomplete_rows_def)
  have ne: "inc \<noteq> [] \<longleftrightarrow> (\<exists>r \<in> set (rows df). type r \<noteq> ''mean'' \<and> card (group_levels (rows df) r) \<noteq> 7)"
    unfolding inc_def incomplete_rows_def by (simp add: filter_empty_conv)
  have res: "fst (check_quantiles df) =
        Inr (if (\<exists>r \<in> set (rows df). type r \<noteq> ''mean'' \<and> card (group_levels (rows df) r) \<noteq> 7)
                \<and> \<not> (\<forall>r \<in> set (rows df). type r = ''mean'')
                \<and> \<not> (\<forall>r \<in> set (rows df). type r = ''quantile'' \<longrightarrow> quantile r = Some 0.5)
             then RStr (Quantiles_Missing listing) else RNone)"
    unfolding check_quantiles_fresh[OF assms] listing_def ne[symmetric] inc_def ..
  have d: "distinct (map fst listing)"
    by (simp add: listing_def quantiles_by_group_keys distinct_unique)
  have k: "set (map fst listing) =
          gkey ` {r \<in> set (rows df). type r \<noteq> ''mean'' \<and> card (group_levels (rows df) r) \<noteq> 7}"
    unfolding set_inc[symmetric] by (simp add: listing_def quantiles_by_group_keys set_unique)
  have m: "\<forall>r \<in> set (rows df). type r \<noteq> ''mean'' \<and> card (group_levels (rows df) r) \<noteq> 7 \<longrightarrow>
            (\<exists>qs. (gkey r, qs) \<in> set listing \<and> set qs = quantile ` set (group_rows (rows df) r))"
  proof (intro ballI impI)
    fix r assume "r \<in> set (rows df)"
      and "type r \<noteq> ''mean'' \<and> card (group_levels (rows df) r) \<noteq> 7"
    then have r: "r \<in> set inc" by (simp add: set_inc)
    let ?qs = "unique (map quantile (filter (\<lambda>s. gkey s = gkey r) inc))"
    have "(gkey r, ?qs) \<in> set listing"
      unfolding listing_def by (rule quantiles_by_group_mem[OF r])
    moreover have "set ?qs = quantile ` set (group_rows (rows df) r)"
      using incomplete_rows_group[of r "rows df"] r by (simp add: set_unique inc_def)
    ultimately show "\<exists>qs. (gkey r, qs) \<in> set listing \<and> set qs = quantile ` set (group_rows (rows df) r)"
      by blast
  qed
  have c: "(\<forall>r \<in> set (rows df). type r \<noteq> ''mean'' \<longrightarrow> group_levels (rows df) r = set VALID_QUANTILES)
            \<longrightarrow> fst (check_quantiles df) = Inr RNone"
    unfolding res by (auto simp: card_VALID_QUANTILES)
  from res d k m c show ?thesis by blast
qed


lemma q_row_simps [simp]:
  "type (q_row q) = ''quantile''" "quantile (q_row q) = Some q"
  "gkey (q_row q) = (''DE'', ''00+'', 1, 19673)"
  by (simp_all add: q_row_def mk_row_def gkey_def)

text \<open>Seven levels and the row of the median twice: eight rows, no message.\<close>

lemma check_quantiles_incomplete_groups_example:
  "has_col table_seven ''type''
   \<and> list_all (has_col table_seven)
        [''location'', ''age_group'', ''horizon'', ''target_end_date'', ''quantile'']
   \<and> \<not> has_col table_seven ''no_quantiles''
   \<and> length (rows table_seven) = 8
   \<and> list_all (\<lambda>r. group_levels (rows table_seven) r = set VALID_QUANTILES) (rows table_seven)
   \<and> fst (check_quantiles table_seven) = Inr RNone"
proof -
  have h1: "has_col table_seven ''type''"
    and h2: "list_all (has_col table_seven)
        [''location'', ''age_group'', ''horizon'', ''target_end_date'', ''quantile'']"
    and h3: "\<not> has_col table_seven ''no_quantiles''"
    by (simp_all add: table_seven_def has_col_def VALID_COLUMNS_def)
  have len: "length (rows table_seven) = 8"
    by (simp add: table_seven_def VALID_QUANTILES_def)
  have rows: "set (rows table_seven) = q_row ` set VALID_QUANTILES"
    by (auto simp: table_seven_def VALID_QUANTILES_def)
  have "group_rows (rows table_seven) r = rows table_seven" if "r \<in> set (rows table_seven)" for r
    using that unfolding group_rows_def rows by (auto simp: filter_id_conv rows)
  then have lev: "\<forall>r \<in> set (rows table_seven). group_levels (rows table_seven) r = set VALID_QUANTILES"
    by (auto simp: group_levels_def dropna_def rows image_image)
  from check_quantiles_incomplete_groups[OF h1 h2 h3] lev
  have "fst (check_quantiles table_seven) = Inr RNone" by blast
  moreover from lev
  have "list_all (\<lambda>r. group_levels (rows table_seven) r = set VALID_QUANTILES) (rows table_seven)"
    by (simp add: list_all_iff)
  ultimately show ?thesis using h1 h2 h3 len by blast
qed

text \<open>
  C2, at the input where the code departs from the claim.  The frame comes from a file
  with a ninth column \<^verbatim>\<open>no_quantiles\<close>: one row of type \<^verbatim>\<open>mean\<close> with the cell 3,
  and seven rows of type \<^verbatim>\<open>quantile\<close> with the seven levels.  Every group has seven
  distinct levels, so the claim says that the check returns nothing.  The check writes
  the helper column only in the rows whose type is not \<^verbatim>\<open>mean\<close>; the row of type
  \<^verbatim>\<open>mean\<close> keeps the cell 3, counts as incomplete, and the check returns a message that
  lists it.  Without the ninth column the same rows give nothing.
\<close>

theorem check_quantiles_stale_helper_column:
  "has_col table_stale ''no_quantiles''
   \<and> map type (rows table_stale) = ''mean'' # replicate 7 ''quantile''
   \<and> map (group_nunique (rows table_stale)) (rows table_stale) = replicate 8 7
   \<and> fst (check_quantiles table_stale)
       = Inr (RStr (Quantiles_Missing [((''DE'', ''00+'', 1, 19673), [None])]))
   \<and> fst (check_quantiles (table_stale\<lparr>columns := VALID_COLUMNS\<rparr>)) = Inr RNone"
  by code_simp

subsection \<open>Paths\<close>

lemma mark_other_files_apply:
  "mark_other_files fs m n = (if n \<in> filename ` set fs then Some [Not_Valid_Submission] else m n)"
  by (induction fs arbitrary: m) auto

text \<open>
  C7, as amended.  A changed file is treated as a forecast exactly when its name matches
  the pattern \<open>pat\<close> of \<^verbatim>\<open>main.py\<close>, which is another pattern than the one of
  \<open>check_filepath\<close>.  Every other changed file gets the one-element list
  \<open>[Not_Valid_Submission]\<close> under its name in the dictionary of errors, whatever its
  content, and the entries of all other names stay as they are.
\<close>

theorem forecasts_are_the_files_matching_pat:
  "(f \<in> set (forecasts files_changed) \<longleftrightarrow> f \<in> set files_changed \<and> re_match pat (filename f))
   \<and> (f \<in> set (other_files files_changed)
        \<longleftrightarrow> f \<in> set files_changed \<and> \<not> re_match pat (filename f))
   \<and> (f \<in> set (other_files files_changed) \<longrightarrow>
        final_errors files_changed all_errors (filename f) = Some [Not_Valid_Submission])
   \<and> (n \<notin> filename ` set (other_files files_changed) \<longrightarrow>
        final_errors files_changed all_errors n = all_errors n)"
  by (auto simp: forecasts_def other_files_def final_errors_def mark_other_files_apply)

lemma loose_matches: "re_match pat ''submissions/x/c/2023-11-09-c.csv''"
  by code_simp

lemma readme_no_match: "\<not> re_match pat ''README.md''"
  by code_simp

theorem forecasts_are_the_files_matching_pat_witness:
  "file_loose \<in> set (forecasts [file_loose, file_readme])
   \<and> file_readme \<in> set (other_files [file_loose, file_readme])
   \<and> final_errors [file_loose, file_readme] Map.empty ''README.md'' = Some [Not_Valid_Submission]
   \<and> final_errors [file_loose, file_readme] Map.empty ''submissions/x/c/2023-11-09-c.csv'' = None"
proof -
  note t = forecasts_are_the_files_matching_pat[of _ "[file_loose, file_readme]" Map.empty]
  have a: "file_loose \<in> set (forecasts [file_loose, file_readme])"
    using t[of file_loose] loose_matches by (simp add: file_loose_def)
  have b: "file_readme \<in> set (other_files [file_loose, file_readme])"
    using t[of file_readme] readme_no_match by (simp add: file_readme_def)
  with t[of file_readme "''README.md''"]
  have c: "final_errors [file_loose, file_readme] Map.empty ''README.md'' = Some [Not_Valid_Submission]"
    by (simp add: file_readme_def)
  have "other_files [file_loose, file_readme] = [file_readme]"
    using loose_matches readme_no_match
    by (simp add: other_files_def forecasts_def file_loose_def file_readme_def)
  with t[of file_loose "''submissions/x/c/2023-11-09-c.csv''"]
  have d: "final_errors [file_loose, file_readme] Map.empty ''submissions/x/c/2023-11-09-c.csv'' = None"
    by (simp add: file_readme_def)
  from a b c d show ?thesis by blast
qed

text \<open>
  C7 as stated takes the forecasts to be the files that the path check accepts.  The file
  \<^verbatim>\<open>submissions/x/c/2023-11-09-c.csv\<close> is a forecast for \<^verbatim>\<open>main.py\<close>, and the path
  check rejects its name, with and without the directory \<^verbatim>\<open>forecasts/\<close> in front.
\<close>

theorem forecast_that_path_matcher_rejects:
  "forecasts [file_loose] = [file_loose]
   \<and> check_filepath (filename file_loose) = RStr Naming_Convention
   \<and> check_filepath (''forecasts/'' @ filename file_loose) = RStr Naming_Convention"
proof -
  have a: "forecasts [file_loose] = [file_loose]"
    using loose_matches by (simp add: forecasts_def file_loose_def)
  have b: "check_filepath ''submissions/x/c/2023-11-09-c.csv'' = RStr Naming_Convention"
    by code_simp
  have c: "check_filepath ''forecasts/submissions/x/c/2023-11-09-c.csv'' = RStr Naming_Convention"
    by code_simp
  from a b c show ?thesis by (simp add: file_loose_def)
qed

text \<open>
  C6, at inputs where the code departs from the claim.  The pattern ends in an unescaped
  dot followed by \<^verbatim>\<open>csv\<close> and is not anchored at the end, so \<open>check_filepath\<close> accepts
  a name that continues after \<^verbatim>\<open>-a-b-c\<close> with any character and \<^verbatim>\<open>csv\<close>, and any
  text after that.  The first of these names also matches \<open>pat\<close>, so \<^verbatim>\<open>main.py\<close>
  downloads the file and passes it to the check.  A name in the form of the grammar is
  accepted, and one whose last segment is not repeated is rejected.
\<close>

theorem check_filepath_accepts_other_names:
  "check_filepath ''forecasts/submissions/a/b/c/2023-11-09-a-b-c-csv.csv'' = RNone
   \<and> check_filepath ''forecasts/submissions/a/b/c/2023-11-09-a-b-c.csv.bak'' = RNone
   \<and> check_filepath ''forecasts/submissions/a/b/c/2023-11-09-a-b-cXcsv'' = RNone
   \<and> check_filepath ''forecasts/submissions/a/b/c/2023-11-09-a-b-c.csv'' = RNone
   \<and> check_filepath ''forecasts/submissions/a/b/c/2023-11-09-a-b-d.csv'' = RStr Naming_Convention
   \<and> re_match pat ''submissions/a/b/c/2023-11-09-a-b-c-csv.csv''"
  by code_simp

subsection \<open>Values\<close>

text \<open>
  C3, at the input where the code departs from the claim: a frame whose only
  \<^verbatim>\<open>value\<close> cell is the text \<^verbatim>\<open>1.2.3\<close>.  All the dots are removed before the
  digit test, so the cell counts as numeric and the check returns nothing; a cell such
  as \<^verbatim>\<open>abc\<close> is reported, and a missing cell gives the count of missing values.
\<close>

theorem check_value_two_decimal_points:
  "check_value (value_table [Some ''1.2.3'']) = Inr RNone
   \<and> check_value (value_table [Some ''abc'']) = Inr (RList [Non_Numeric [''abc'']])
   \<and> check_value (value_table [None, Some ''1.5'']) = Inr (RList [Missing_Values 1])"
  by (simp add: check_value_def value_table_def mk_row_def has_col_def VALID_COLUMNS_def
      isnull_sum_def dropna_def isnumeric_def is_digit_def astype_str_def)

end
